theory Spec2Isabelle
  imports Main
begin

section \<open>JavaScript values used by the ingestion code\<close>

text \<open>
  A string is the list of the bytes of its UTF-8 encoding. A number is kept as the decimal
  that \<open>Number.prototype.toString\<close> prints for it, which is the text the database driver
  sends for a number: a sign, the digits as a natural number and a decimal exponent.
\<close>

datatype jsnumber = NaN | Infinity bool | Finite bool nat int

text \<open>
  The white space and line terminators that \<open>parseFloat\<close> skips: the six below U+0080,
  U+00A0 in two bytes, and in three bytes U+1680, U+2000 to U+200A, U+2028, U+2029,
  U+202F, U+205F, U+3000 and U+FEFF.
\<close>

definition isStrWhiteSpaceChar :: "char \<Rightarrow> bool" where
  "isStrWhiteSpaceChar c = ((of_char c :: nat) \<in> {9, 10, 11, 12, 13, 32})"

definition isWhiteSpace2 :: "char \<Rightarrow> char \<Rightarrow> bool" where
  "isWhiteSpace2 a b = ((of_char a :: nat) = 194 \<and> (of_char b :: nat) = 160)"

definition isWhiteSpace3 :: "char \<Rightarrow> char \<Rightarrow> char \<Rightarrow> bool" where
  "isWhiteSpace3 a b c =
     (let x = (of_char a :: nat); y = (of_char b :: nat); z = (of_char c :: nat)
      in (x = 225 \<and> y = 154 \<and> z = 128) \<or>
         (x = 226 \<and> y = 128 \<and> (128 \<le> z \<and> z \<le> 138 \<or> z = 168 \<or> z = 169 \<or> z = 175)) \<or>
         (x = 226 \<and> y = 129 \<and> z = 159) \<or>
         (x = 227 \<and> y = 128 \<and> z = 128) \<or>
         (x = 239 \<and> y = 187 \<and> z = 191))"

fun trimStart :: "string \<Rightarrow> string" where
  "trimStart (a # b # c # rest) =
     (if isStrWhiteSpaceChar a then trimStart (b # c # rest)
      else if isWhiteSpace2 a b then trimStart (c # rest)
      else if isWhiteSpace3 a b c then trimStart rest
      else a # b # c # rest)"
| "trimStart [a, b] =
     (if isStrWhiteSpaceChar a then trimStart [b]
      else if isWhiteSpace2 a b then []
      else [a, b])"
| "trimStart [a] = (if isStrWhiteSpaceChar a then [] else [a])"
| "trimStart [] = []"

definition isDecimalDigit :: "char \<Rightarrow> bool" where
  "isDecimalDigit c = (48 \<le> (of_char c :: nat) \<and> (of_char c :: nat) \<le> 57)"

definition digitsValue :: "string \<Rightarrow> nat" where
  "digitsValue ds = foldl (\<lambda>a c. 10 * a + ((of_char c :: nat) - 48)) 0 ds"

definition parseExponent :: "string \<Rightarrow> int" where
  "parseExponent r =
     (case r of
        [] \<Rightarrow> 0
      | c # rest \<Rightarrow>
          if c = CHR ''e'' \<or> c = CHR ''E'' then
            (let neg = (rest \<noteq> [] \<and> hd rest = CHR ''-'');
                 body = (if rest \<noteq> [] \<and> (hd rest = CHR ''-'' \<or> hd rest = CHR ''+'')
                         then tl rest else rest);
                 ds = takeWhile isDecimalDigit body
             in if ds = [] then 0
                else if neg then - int (digitsValue ds) else int (digitsValue ds))
          else 0)"

text \<open>
  The double a decimal literal denotes, \<open>m\<close> times ten to the \<open>e\<close>. From
  \<open>2^1024 - 2^970\<close> on the nearest double is \<open>Infinity\<close>, and up to \<open>2^-1075\<close> it is
  zero. In between, the literal's own digits are kept: they are the value \<open>toString\<close>
  prints as long as the literal has no more than 15 significant digits, and for a longer
  literal they stand for the nearest double, which differs from them after the fifteenth
  digit.
\<close>

definition toDouble :: "bool \<Rightarrow> nat \<Rightarrow> int \<Rightarrow> jsnumber" where
  "toDouble neg m e =
     (if m = 0 then Finite neg 0 0
      else if 0 \<le> e then
        (if 2 ^ 1024 - 2 ^ 970 \<le> m * 10 ^ nat e then Infinity neg else Finite neg m e)
      else if (2 ^ 1024 - 2 ^ 970) * 10 ^ nat (- e) \<le> m then Infinity neg
      else if m * 2 ^ 1075 \<le> 10 ^ nat (- e) then Finite neg 0 0
      else Finite neg m e)"

text \<open>
  \<open>parseFloat\<close> returns a number for every string: it skips leading white space, reads
  the longest prefix that is a decimal literal and gives \<open>NaN\<close> when there is none. It
  never throws.
\<close>

definition parseFloat :: "string \<Rightarrow> jsnumber" where
  "parseFloat s =
     (let t = trimStart s;
          neg = (t \<noteq> [] \<and> hd t = CHR ''-'');
          u = (if t \<noteq> [] \<and> (hd t = CHR ''-'' \<or> hd t = CHR ''+'') then tl t else t)
      in if take 8 u = ''Infinity'' then Infinity neg
         else
           (let ip = takeWhile isDecimalDigit u;
                r = dropWhile isDecimalDigit u;
                hasDot = (r \<noteq> [] \<and> hd r = CHR ''.'');
                fp = (if hasDot then takeWhile isDecimalDigit (tl r) else []);
                r2 = (if hasDot then dropWhile isDecimalDigit (tl r) else r)
            in if ip = [] \<and> fp = [] then NaN
               else toDouble neg (digitsValue (ip @ fp))
                      (parseExponent r2 - int (length fp))))"

text \<open>
  A JSON field may be absent. \<open>parseFloat(undefined)\<close> reads the string
  \<open>"undefined"\<close>, which has no numeric prefix.
\<close>

definition parseFloat_field :: "string option \<Rightarrow> jsnumber" where
  "parseFloat_field f = (case f of None \<Rightarrow> NaN | Some s \<Rightarrow> parseFloat s)"


section \<open>The external source client (services/shopify-api.ts)\<close>

datatype param = PNum int | PStr string

record request =
  req_url :: string
  req_token :: "string option"
  req_params :: "(string \<times> param) list"

record ShopifyAPIService =
  baseUrl :: string
  accessToken :: "string option"

definition stripProtocol :: "string \<Rightarrow> string" where
  "stripProtocol d =
     (if take 8 d = ''https://'' then drop 8 d
      else if take 7 d = ''http://'' then drop 7 d else d)"

definition newShopifyAPIService :: "string \<Rightarrow> string option \<Rightarrow> ShopifyAPIService" where
  "newShopifyAPIService shopDomain token =
     \<lparr> baseUrl = ''https://'' @ stripProtocol shopDomain @ ''/admin/api/2023-10'',
       accessToken = token \<rparr>"

definition makeRequest :: "ShopifyAPIService \<Rightarrow> string \<Rightarrow> (string \<times> param) list \<Rightarrow> request" where
  "makeRequest api ep ps =
     \<lparr> req_url = baseUrl api @ ep, req_token = accessToken api, req_params = ps \<rparr>"

text \<open>\<open>if (sinceId)\<close> is false for \<open>undefined\<close> and for \<open>0\<close>.\<close>

definition sinceParam :: "int option \<Rightarrow> (string \<times> param) list" where
  "sinceParam sinceId =
     (case sinceId of
        None \<Rightarrow> []
      | Some n \<Rightarrow> if n \<noteq> 0 then [(''since_id'', PNum n)] else [])"

definition getCustomers :: "ShopifyAPIService \<Rightarrow> int \<Rightarrow> int option \<Rightarrow> request" where
  "getCustomers api limit sinceId =
     makeRequest api ''/customers.json'' ([(''limit'', PNum limit)] @ sinceParam sinceId)"

definition getOrders :: "ShopifyAPIService \<Rightarrow> int \<Rightarrow> int option \<Rightarrow> request" where
  "getOrders api limit sinceId =
     makeRequest api ''/orders.json''
       ([(''limit'', PNum limit), (''status'', PStr ''any'')] @ sinceParam sinceId)"

definition getProducts :: "ShopifyAPIService \<Rightarrow> int \<Rightarrow> int option \<Rightarrow> request" where
  "getProducts api limit sinceId =
     makeRequest api ''/products.json'' ([(''limit'', PNum limit)] @ sinceParam sinceId)"

text \<open>
  The ingestion code calls each of the three with a third argument,
  \<open>shopify.getCustomers(250, sinceId, lastUpdatedAt ?? undefined)\<close>. The methods
  declare two parameters, and JavaScript discards a surplus argument. The three
  \<open>call3\<close> functions are these call sites.
\<close>

definition getCustomers_call3 ::
  "ShopifyAPIService \<Rightarrow> int \<Rightarrow> int option \<Rightarrow> int option \<Rightarrow> request" where
  "getCustomers_call3 api limit sinceId lastUpdatedAt = getCustomers api limit sinceId"

definition getProducts_call3 ::
  "ShopifyAPIService \<Rightarrow> int \<Rightarrow> int option \<Rightarrow> int option \<Rightarrow> request" where
  "getProducts_call3 api limit sinceId lastUpdatedAt = getProducts api limit sinceId"

definition getOrders_call3 ::
  "ShopifyAPIService \<Rightarrow> int \<Rightarrow> int option \<Rightarrow> int option \<Rightarrow> request" where
  "getOrders_call3 api limit sinceId lastUpdatedAt = getOrders api limit sinceId"


section \<open>Payloads (types/shopify.ts)\<close>

text \<open>
  A payload is the value \<open>JSON.parse\<close> made of the body. An identifier is a JSON number,
  so a double, and the record holds the integer that double is: an identifier written
  with more than 53 bits in the body has reached the code as the nearest double. An
  identifier, a numeric string or \<open>updated_at\<close> may be missing from a payload, which is
  \<open>None\<close>. Timestamps are the millisecond value that \<open>new Date\<close> gives the source's
  string, and \<open>c.updated_at || c.created_at\<close> falls back to \<open>created_at\<close>; a timestamp
  that \<open>new Date\<close> or the store cannot read is not represented.
\<close>

record ShopifyCustomer =
  c_id :: "int option"
  c_email :: string
  c_first_name :: string
  c_last_name :: string
  c_phone :: string
  c_created_at :: int
  c_updated_at :: "int option"
  c_total_spent :: "string option"
  c_orders_count :: int

record ShopifyVariant =
  v_id :: "int option"
  v_title :: string
  v_price :: "string option"
  v_sku :: string
  v_inventory_quantity :: int
  v_weight :: jsnumber
  v_created_at :: "int option"
  v_updated_at :: "int option"

record ShopifyProduct =
  p_id :: "int option"
  p_title :: string
  p_body_html :: string
  p_vendor :: string
  p_product_type :: string
  p_created_at :: int
  p_updated_at :: "int option"
  p_published_at :: "int option"
  p_handle :: string
  p_tags :: string
  p_status :: string
  p_variants :: "ShopifyVariant list"

record ShopifyLineItem =
  li_id :: "int option"
  li_quantity :: int
  li_price :: "string option"
  li_title :: string
  li_variant_title :: string
  li_sku :: string

text \<open>The two addresses are kept as the text \<open>JSON.stringify\<close> gives them.\<close>

record ShopifyOrder =
  o_id :: "int option"
  o_order_number :: int
  o_customer :: "ShopifyCustomer option"
  o_line_items :: "ShopifyLineItem list"
  o_total_price :: "string option"
  o_subtotal_price :: "string option"
  o_total_tax :: "string option"
  o_currency :: string
  o_financial_status :: string
  o_fulfillment_status :: string
  o_created_at :: int
  o_updated_at :: "int option"
  o_shipping_address :: string
  o_billing_address :: string


section \<open>The relational store (database/migrations.sql)\<close>

text \<open>
  A thrown value is a database error with its SQLSTATE code and message, or any other
  error with its message. The messages of the database errors below stand for
  PostgreSQL's, which also name the value, the column or the constraint.
\<close>

datatype error = PgError string string | Error string

fun message :: "error \<Rightarrow> string" where
  "message (PgError code msg) = msg"
| "message (Error msg) = msg"

fun code :: "error \<Rightarrow> string option" where
  "code (PgError c msg) = Some c"
| "code (Error msg) = None"

definition not_null_violation :: "string \<Rightarrow> error" where
  "not_null_violation col = PgError ''23502'' (''null value in column '' @ col)"

definition unique_violation :: "string \<Rightarrow> error" where
  "unique_violation tbl = PgError ''23505'' (''duplicate key value in '' @ tbl)"

definition numeric_value_out_of_range :: "string \<Rightarrow> error" where
  "numeric_value_out_of_range ty = PgError ''22003'' (''value out of range for type '' @ ty)"

definition invalid_text_representation :: "string \<Rightarrow> error" where
  "invalid_text_representation ty = PgError ''22P02'' (''invalid input syntax for type '' @ ty)"

definition string_data_right_truncation :: error where
  "string_data_right_truncation = PgError ''22001'' ''value too long for type character varying''"

definition character_not_in_repertoire :: error where
  "character_not_in_repertoire = PgError ''22021'' ''invalid byte sequence for encoding UTF8: 0x00''"

definition untranslatable_character :: error where
  "untranslatable_character = PgError ''22P05'' ''unsupported Unicode escape sequence''"

text \<open>
  A statement hands its values to the columns one after the other; the first column that
  refuses its value gives the error of the statement, and nothing is written.
\<close>

definition check :: "error + 'a \<Rightarrow> ('a \<Rightarrow> error + 'b) \<Rightarrow> error + 'b" where
  "check r f = (case r of Inl e \<Rightarrow> Inl e | Inr v \<Rightarrow> f v)"

definition nullable :: "('a \<Rightarrow> error + 'b) \<Rightarrow> 'a option \<Rightarrow> error + 'b option" where
  "nullable col v = (case v of None \<Rightarrow> Inr None | Some x \<Rightarrow> check (col x) (\<lambda>y. Inr (Some y)))"

definition not_null :: "string \<Rightarrow> 'a option \<Rightarrow> error + 'a" where
  "not_null col v = (case v of None \<Rightarrow> Inl (not_null_violation col) | Some x \<Rightarrow> Inr x)"

text \<open>
  \<open>BIGINT\<close> and \<open>INTEGER\<close> hold 64 and 32 bits. The driver writes a number from
  \<open>10^21\<close> on with an exponent, which is not the syntax of an integer.
\<close>

definition as_bigint :: "int \<Rightarrow> error + int" where
  "as_bigint n =
     (if - (2 ^ 63) \<le> n \<and> n < 2 ^ 63 then Inr n
      else if \<bar>n\<bar> < 10 ^ 21 then Inl (numeric_value_out_of_range ''bigint'')
      else Inl (invalid_text_representation ''bigint''))"

definition as_integer :: "int \<Rightarrow> error + int" where
  "as_integer n =
     (if - (2 ^ 31) \<le> n \<and> n < 2 ^ 31 then Inr n
      else if \<bar>n\<bar> < 10 ^ 21 then Inl (numeric_value_out_of_range ''integer'')
      else Inl (invalid_text_representation ''integer''))"

text \<open>
  \<open>DECIMAL(p,2)\<close> holds \<open>NaN\<close>, or a number of hundredths smaller than \<open>10^p\<close> in
  absolute value. A number with more than two decimals is rounded to the nearest
  hundredth, a half away from zero; \<open>Infinity\<close> and a number that is too large are
  refused.
\<close>

datatype numeric = NumericNaN | Numeric int

definition scaled :: "nat \<Rightarrow> int \<Rightarrow> nat" where
  "scaled m k =
     (if 0 \<le> k then m * 10 ^ nat k
      else (2 * m + 10 ^ nat (- k)) div (2 * 10 ^ nat (- k)))"

definition as_decimal :: "nat \<Rightarrow> jsnumber \<Rightarrow> error + numeric" where
  "as_decimal p x =
     (case x of
        NaN \<Rightarrow> Inr NumericNaN
      | Infinity neg \<Rightarrow> Inl (numeric_value_out_of_range ''numeric'')
      | Finite neg m e \<Rightarrow>
          (let hundredths = scaled m (e + 2)
           in if 10 ^ p \<le> hundredths then Inl (numeric_value_out_of_range ''numeric'')
              else Inr (Numeric (if neg then - int hundredths else int hundredths))))"

text \<open>
  A text may not hold the byte zero. \<open>VARCHAR(n)\<close> holds up to \<open>n\<close> characters, which
  are the bytes that do not continue a character; of a longer text the excess is cut off
  when it is all spaces, and the text is refused otherwise. \<open>JSONB\<close> refuses a text in
  which a string has the escape of the character zero.
\<close>

definition as_text :: "string \<Rightarrow> error + string" where
  "as_text s =
     (if list_ex (\<lambda>c. (of_char c :: nat) = 0) s then Inl character_not_in_repertoire
      else Inr s)"

definition char_length :: "string \<Rightarrow> nat" where
  "char_length s =
     length (filter (\<lambda>c. \<not> (128 \<le> (of_char c :: nat) \<and> (of_char c :: nat) < 192)) s)"

definition as_varchar :: "nat \<Rightarrow> string \<Rightarrow> error + string" where
  "as_varchar n s =
     check (as_text s)
       (\<lambda>t. if char_length t \<le> n then Inr t
            else if list_all (\<lambda>c. c = CHR '' '') (drop (length t - (char_length t - n)) t)
            then Inr (take (length t - (char_length t - n)) t)
            else Inl string_data_right_truncation)"

fun nul_escape :: "string \<Rightarrow> bool" where
  "nul_escape (a # b # rest) =
     (if (of_char a :: nat) = 92
      then (if b = CHR ''u'' then take 4 rest = ''0000'' \<or> nul_escape rest
            else nul_escape rest)
      else nul_escape (b # rest))"
| "nul_escape [a] = False"
| "nul_escape [] = False"

definition as_jsonb :: "string \<Rightarrow> error + string" where
  "as_jsonb s = (if nul_escape s then Inl untranslatable_character else Inr s)"

text \<open>
  Tenant identifiers are the UUID text of the \<open>tenants\<close> table, written here with short
  names; a request for an identifier that is not a UUID is not represented. The
  identifiers the store generates for the other tables come from the counter \<open>next_id\<close>.
  \<open>NOW()\<close> is a parameter of each write. The columns \<open>started_at\<close>, \<open>completed_at\<close>,
  \<open>received_at\<close> and \<open>last_run_at\<close> and the columns no statement of the code sets are
  left out. The order number, a number of the payload, always fits its column of 50
  characters, and so do the constant texts the code passes for a topic, an event type or a
  status. Of the ways a statement can fail, the model has the refusals above, \<open>NOT NULL\<close>
  and \<open>UNIQUE\<close>; a lost connection is an event of the environment for the page
  transactions only, and foreign keys are not checked.
\<close>

record tenant_row =
  t_id :: string
  t_shop_domain :: string
  t_access_token :: "string option"
  t_status :: string

record customer_row =
  cr_id :: nat
  cr_tenant_id :: string
  cr_shopify_customer_id :: int
  cr_email :: string
  cr_first_name :: string
  cr_last_name :: string
  cr_phone :: string
  cr_total_spent :: numeric
  cr_orders_count :: int
  cr_created_at :: int
  cr_updated_at :: int
  cr_shopify_created_at :: int
  cr_shopify_updated_at :: "int option"

record product_row =
  pr_id :: nat
  pr_tenant_id :: string
  pr_shopify_product_id :: int
  pr_title :: string
  pr_body_html :: string
  pr_vendor :: string
  pr_product_type :: string
  pr_handle :: string
  pr_tags :: string
  pr_status :: string
  pr_created_at :: int
  pr_updated_at :: int
  pr_shopify_created_at :: int
  pr_shopify_updated_at :: "int option"
  pr_shopify_published_at :: "int option"

record variant_row =
  vr_id :: nat
  vr_tenant_id :: string
  vr_product_id :: nat
  vr_shopify_variant_id :: int
  vr_title :: string
  vr_price :: numeric
  vr_sku :: string
  vr_inventory_quantity :: int
  vr_weight :: numeric
  vr_created_at :: int
  vr_updated_at :: int
  vr_shopify_created_at :: "int option"
  vr_shopify_updated_at :: "int option"

record order_row =
  or_id :: nat
  or_tenant_id :: string
  or_customer_id :: "nat option"
  or_shopify_order_id :: int
  or_order_number :: int
  or_total_price :: numeric
  or_subtotal_price :: numeric
  or_total_tax :: numeric
  or_currency :: string
  or_financial_status :: string
  or_fulfillment_status :: string
  or_shipping_address :: string
  or_billing_address :: string
  or_created_at :: int
  or_updated_at :: int
  or_shopify_created_at :: int
  or_shopify_updated_at :: "int option"

record line_item_row =
  lr_id :: nat
  lr_tenant_id :: string
  lr_order_id :: nat
  lr_shopify_line_item_id :: int
  lr_quantity :: int
  lr_price :: numeric
  lr_title :: string
  lr_variant_title :: string
  lr_sku :: string
  lr_created_at :: int

record custom_event_row =
  ce_id :: nat
  ce_tenant_id :: string
  ce_customer_id :: "nat option"
  ce_event_type :: string
  ce_event_data :: string
  ce_cart_token :: "string option"
  ce_created_at :: int

record sync_log_row =
  sl_id :: nat
  sl_tenant_id :: string
  sl_sync_type :: string
  sl_status :: string
  sl_records_processed :: nat
  sl_error_message :: "string option"

record receipt_row =
  wr_tenant_id :: string
  wr_topic :: string
  wr_external_id :: "int option"

record db =
  tenants :: "tenant_row list"
  customers :: "customer_row list"
  products :: "product_row list"
  product_variants :: "variant_row list"
  orders :: "order_row list"
  order_line_items :: "line_item_row list"
  custom_events :: "custom_event_row list"
  sync_logs :: "sync_log_row list"
  sync_checkpoints :: "string \<times> string \<rightharpoonup> int"
  webhook_receipts :: "receipt_row list"
  next_id :: nat

text \<open>
  \<open>INSERT ... ON CONFLICT (key) DO UPDATE SET ...\<close>: when a row with the key exists it is
  updated in place, otherwise the row proposed for insertion is appended.
\<close>

definition on_conflict_do_update ::
  "('row \<Rightarrow> bool) \<Rightarrow> ('row \<Rightarrow> 'row) \<Rightarrow> 'row \<Rightarrow> 'row list \<Rightarrow> 'row list" where
  "on_conflict_do_update conflicts upd fresh rows =
     (if list_ex conflicts rows
      then map (\<lambda>r. if conflicts r then upd r else r) rows
      else rows @ [fresh])"

text \<open>
  The statement of \<open>ingestCustomers\<close> (data-ingestion.ts, lines 29 to 48) and of
  \<open>handleCustomerUpdate\<close> (webhook-handler.ts, lines 51 to 70). The two differ in the
  number they pass for \<open>total_spent\<close> only, which is the argument \<open>spent\<close>.
  \<open>excluded_customer\<close> is the row proposed for insertion, \<open>EXCLUDED\<close> in the statement:
  the values of the statement as the columns of the table take them, with the defaults of
  the columns the statement does not name.
\<close>

definition excluded_customer ::
  "int \<Rightarrow> string \<Rightarrow> nat \<Rightarrow> ShopifyCustomer \<Rightarrow> jsnumber \<Rightarrow> error + customer_row" where
  "excluded_customer now tenantId newId c spent =
     check (nullable as_bigint (c_id c)) (\<lambda>ext.
     check (as_varchar 255 (c_email c)) (\<lambda>email.
     check (as_varchar 255 (c_first_name c)) (\<lambda>first_name.
     check (as_varchar 255 (c_last_name c)) (\<lambda>last_name.
     check (as_varchar 50 (c_phone c)) (\<lambda>phone.
     check (as_decimal 10 spent) (\<lambda>total_spent.
     check (as_integer (c_orders_count c)) (\<lambda>orders_count.
     check (not_null ''shopify_customer_id'' ext) (\<lambda>shopify_customer_id.
       Inr \<lparr> cr_id = newId, cr_tenant_id = tenantId,
             cr_shopify_customer_id = shopify_customer_id, cr_email = email,
             cr_first_name = first_name, cr_last_name = last_name,
             cr_phone = phone, cr_total_spent = total_spent,
             cr_orders_count = orders_count,
             cr_created_at = now, cr_updated_at = now,
             cr_shopify_created_at = c_created_at c,
             cr_shopify_updated_at = c_updated_at c \<rparr>))))))))"

text \<open>\<open>ON CONFLICT (tenant_id, shopify_customer_id)\<close> and \<open>DO UPDATE SET\<close>.\<close>

definition customer_conflict :: "customer_row \<Rightarrow> customer_row \<Rightarrow> bool" where
  "customer_conflict excluded r =
     (cr_tenant_id r = cr_tenant_id excluded \<and>
      cr_shopify_customer_id r = cr_shopify_customer_id excluded)"

definition customer_do_update :: "int \<Rightarrow> customer_row \<Rightarrow> customer_row \<Rightarrow> customer_row" where
  "customer_do_update now excluded r =
     r\<lparr> cr_email := cr_email excluded,
        cr_first_name := cr_first_name excluded,
        cr_last_name := cr_last_name excluded,
        cr_phone := cr_phone excluded,
        cr_total_spent := cr_total_spent excluded,
        cr_orders_count := cr_orders_count excluded,
        cr_updated_at := now,
        cr_shopify_updated_at := cr_shopify_updated_at excluded \<rparr>"

definition upsert_customer :: "int \<Rightarrow> string \<Rightarrow> ShopifyCustomer \<Rightarrow> jsnumber \<Rightarrow> db \<Rightarrow> error + db" where
  "upsert_customer now tenantId c spent d =
     check (excluded_customer now tenantId (next_id d) c spent) (\<lambda>excluded.
       Inr (d\<lparr> customers :=
                 on_conflict_do_update (customer_conflict excluded)
                   (customer_do_update now excluded) excluded (customers d),
               next_id := Suc (next_id d) \<rparr>))"

definition write_customer :: "int \<Rightarrow> string \<Rightarrow> ShopifyCustomer \<Rightarrow> db \<Rightarrow> error + db" where
  "write_customer now tenantId c d =
     upsert_customer now tenantId c (parseFloat_field (c_total_spent c)) d"

text \<open>
  \<open>SELECT id FROM customers WHERE tenant_id = $1 AND shopify_customer_id = $2\<close>, then
  \<open>rows[0].id\<close> when there is a row. A missing identifier is \<open>NULL\<close> and matches no row;
  one that is no \<open>BIGINT\<close> fails the statement.
\<close>

definition lookup_customer_id :: "string \<Rightarrow> int option \<Rightarrow> db \<Rightarrow> error + nat option" where
  "lookup_customer_id tenantId ext d =
     check (nullable as_bigint ext) (\<lambda>key.
       Inr (case key of
              None \<Rightarrow> None
            | Some e \<Rightarrow>
                map_option cr_id
                  (find (\<lambda>r. cr_tenant_id r = tenantId \<and> cr_shopify_customer_id r = e)
                        (customers d))))"

text \<open>
  \<open>let customerId = null; if (x.customer) { ... }\<close>, the lines before the order statement
  and before the event statement of the two webhook handlers.
\<close>

definition linked_customer :: "string \<Rightarrow> ShopifyCustomer option \<Rightarrow> db \<Rightarrow> error + nat option" where
  "linked_customer tenantId customer d =
     (case customer of
        None \<Rightarrow> Inr None
      | Some c \<Rightarrow> lookup_customer_id tenantId (c_id c) d)"


text \<open>
  The product statement (lines 110 to 134) with \<open>RETURNING id\<close>, then one statement for
  each variant (lines 140 to 159), which carries the product's local identifier.
\<close>

definition excluded_product ::
  "int \<Rightarrow> string \<Rightarrow> nat \<Rightarrow> ShopifyProduct \<Rightarrow> error + product_row" where
  "excluded_product now tenantId newId p =
     check (nullable as_bigint (p_id p)) (\<lambda>ext.
     check (as_varchar 500 (p_title p)) (\<lambda>title.
     check (as_text (p_body_html p)) (\<lambda>body_html.
     check (as_varchar 255 (p_vendor p)) (\<lambda>vendor.
     check (as_varchar 255 (p_product_type p)) (\<lambda>product_type.
     check (as_varchar 255 (p_handle p)) (\<lambda>handle.
     check (as_text (p_tags p)) (\<lambda>tags.
     check (as_varchar 50 (p_status p)) (\<lambda>status.
     check (not_null ''shopify_product_id'' ext) (\<lambda>shopify_product_id.
       Inr \<lparr> pr_id = newId, pr_tenant_id = tenantId,
             pr_shopify_product_id = shopify_product_id, pr_title = title,
             pr_body_html = body_html, pr_vendor = vendor,
             pr_product_type = product_type, pr_handle = handle,
             pr_tags = tags, pr_status = status,
             pr_created_at = now, pr_updated_at = now,
             pr_shopify_created_at = p_created_at p,
             pr_shopify_updated_at = p_updated_at p,
             pr_shopify_published_at = p_published_at p \<rparr>)))))))))"

definition product_conflict :: "product_row \<Rightarrow> product_row \<Rightarrow> bool" where
  "product_conflict excluded r =
     (pr_tenant_id r = pr_tenant_id excluded \<and>
      pr_shopify_product_id r = pr_shopify_product_id excluded)"

definition product_do_update :: "int \<Rightarrow> product_row \<Rightarrow> product_row \<Rightarrow> product_row" where
  "product_do_update now excluded r =
     r\<lparr> pr_title := pr_title excluded,
        pr_body_html := pr_body_html excluded,
        pr_vendor := pr_vendor excluded,
        pr_product_type := pr_product_type excluded,
        pr_handle := pr_handle excluded,
        pr_tags := pr_tags excluded,
        pr_status := pr_status excluded,
        pr_updated_at := now,
        pr_shopify_updated_at := pr_shopify_updated_at excluded,
        pr_shopify_published_at := pr_shopify_published_at excluded \<rparr>"

text \<open>\<open>RETURNING id\<close> gives the identifier of the row that was updated or inserted.\<close>

definition upsert_product :: "int \<Rightarrow> string \<Rightarrow> ShopifyProduct \<Rightarrow> db \<Rightarrow> error + nat \<times> db" where
  "upsert_product now tenantId p d =
     check (excluded_product now tenantId (next_id d) p) (\<lambda>excluded.
       Inr (case find (product_conflict excluded) (products d) of
              Some r \<Rightarrow> pr_id r
            | None \<Rightarrow> pr_id excluded,
            d\<lparr> products :=
                  on_conflict_do_update (product_conflict excluded)
                    (product_do_update now excluded) excluded (products d),
                next_id := Suc (next_id d) \<rparr>))"

definition excluded_variant ::
  "int \<Rightarrow> string \<Rightarrow> nat \<Rightarrow> nat \<Rightarrow> ShopifyVariant \<Rightarrow> error + variant_row" where
  "excluded_variant now tenantId newId productId v =
     check (nullable as_bigint (v_id v)) (\<lambda>ext.
     check (as_varchar 255 (v_title v)) (\<lambda>title.
     check (as_decimal 10 (parseFloat_field (v_price v))) (\<lambda>price.
     check (as_varchar 255 (v_sku v)) (\<lambda>sku.
     check (as_integer (v_inventory_quantity v)) (\<lambda>inventory_quantity.
     check (as_decimal 8 (v_weight v)) (\<lambda>weight.
     check (not_null ''shopify_variant_id'' ext) (\<lambda>shopify_variant_id.
       Inr \<lparr> vr_id = newId, vr_tenant_id = tenantId, vr_product_id = productId,
             vr_shopify_variant_id = shopify_variant_id, vr_title = title,
             vr_price = price, vr_sku = sku,
             vr_inventory_quantity = inventory_quantity,
             vr_weight = weight, vr_created_at = now, vr_updated_at = now,
             vr_shopify_created_at = v_created_at v,
             vr_shopify_updated_at = v_updated_at v \<rparr>)))))))"

definition variant_conflict :: "variant_row \<Rightarrow> variant_row \<Rightarrow> bool" where
  "variant_conflict excluded r =
     (vr_tenant_id r = vr_tenant_id excluded \<and>
      vr_shopify_variant_id r = vr_shopify_variant_id excluded)"

definition variant_do_update :: "int \<Rightarrow> variant_row \<Rightarrow> variant_row \<Rightarrow> variant_row" where
  "variant_do_update now excluded r =
     r\<lparr> vr_product_id := vr_product_id excluded,
        vr_title := vr_title excluded,
        vr_price := vr_price excluded,
        vr_sku := vr_sku excluded,
        vr_inventory_quantity := vr_inventory_quantity excluded,
        vr_weight := vr_weight excluded,
        vr_updated_at := now,
        vr_shopify_updated_at := vr_shopify_updated_at excluded \<rparr>"

definition upsert_variant :: "int \<Rightarrow> string \<Rightarrow> nat \<Rightarrow> ShopifyVariant \<Rightarrow> db \<Rightarrow> error + db" where
  "upsert_variant now tenantId productId v d =
     check (excluded_variant now tenantId (next_id d) productId v) (\<lambda>excluded.
       Inr (d\<lparr> product_variants :=
                 on_conflict_do_update (variant_conflict excluded)
                   (variant_do_update now excluded) excluded (product_variants d),
               next_id := Suc (next_id d) \<rparr>))"

fun write_variants :: "int \<Rightarrow> string \<Rightarrow> nat \<Rightarrow> ShopifyVariant list \<Rightarrow> db \<Rightarrow> error + db" where
  "write_variants now tenantId productId [] d = Inr d"
| "write_variants now tenantId productId (v # vs) d =
     check (upsert_variant now tenantId productId v d)
       (\<lambda>d'. write_variants now tenantId productId vs d')"

definition write_product :: "int \<Rightarrow> string \<Rightarrow> ShopifyProduct \<Rightarrow> db \<Rightarrow> error + db" where
  "write_product now tenantId p d =
     check (upsert_product now tenantId p d)
       (\<lambda>(productId, d'). write_variants now tenantId productId (p_variants p) d')"

text \<open>
  The order statement (lines 221 to 259): the customer lookup, then the upsert, which on a
  conflict leaves \<open>currency\<close> and the two addresses as they are; then one statement for
  each line item (lines 265 to 282).
\<close>

definition excluded_order ::
  "int \<Rightarrow> string \<Rightarrow> nat \<Rightarrow> nat option \<Rightarrow> ShopifyOrder \<Rightarrow> error + order_row" where
  "excluded_order now tenantId newId customerId ord =
     check (nullable as_bigint (o_id ord)) (\<lambda>ext.
     check (as_decimal 10 (parseFloat_field (o_total_price ord))) (\<lambda>total_price.
     check (as_decimal 10 (parseFloat_field (o_subtotal_price ord))) (\<lambda>subtotal_price.
     check (as_decimal 10 (parseFloat_field (o_total_tax ord))) (\<lambda>total_tax.
     check (as_varchar 3 (o_currency ord)) (\<lambda>currency.
     check (as_varchar 50 (o_financial_status ord)) (\<lambda>financial_status.
     check (as_varchar 50 (o_fulfillment_status ord)) (\<lambda>fulfillment_status.
     check (as_jsonb (o_shipping_address ord)) (\<lambda>shipping_address.
     check (as_jsonb (o_billing_address ord)) (\<lambda>billing_address.
     check (not_null ''shopify_order_id'' ext) (\<lambda>shopify_order_id.
       Inr \<lparr> or_id = newId, or_tenant_id = tenantId,
             or_customer_id = customerId, or_shopify_order_id = shopify_order_id,
             or_order_number = o_order_number ord,
             or_total_price = total_price,
             or_subtotal_price = subtotal_price,
             or_total_tax = total_tax,
             or_currency = currency,
             or_financial_status = financial_status,
             or_fulfillment_status = fulfillment_status,
             or_shipping_address = shipping_address,
             or_billing_address = billing_address,
             or_created_at = now, or_updated_at = now,
             or_shopify_created_at = o_created_at ord,
             or_shopify_updated_at = o_updated_at ord \<rparr>))))))))))"

definition order_conflict :: "order_row \<Rightarrow> order_row \<Rightarrow> bool" where
  "order_conflict excluded r =
     (or_tenant_id r = or_tenant_id excluded \<and>
      or_shopify_order_id r = or_shopify_order_id excluded)"

definition order_do_update :: "int \<Rightarrow> order_row \<Rightarrow> order_row \<Rightarrow> order_row" where
  "order_do_update now excluded r =
     r\<lparr> or_customer_id := or_customer_id excluded,
        or_order_number := or_order_number excluded,
        or_total_price := or_total_price excluded,
        or_subtotal_price := or_subtotal_price excluded,
        or_total_tax := or_total_tax excluded,
        or_financial_status := or_financial_status excluded,
        or_fulfillment_status := or_fulfillment_status excluded,
        or_updated_at := now,
        or_shopify_updated_at := or_shopify_updated_at excluded \<rparr>"

definition upsert_order :: "int \<Rightarrow> string \<Rightarrow> nat option \<Rightarrow> ShopifyOrder \<Rightarrow> db \<Rightarrow> error + nat \<times> db" where
  "upsert_order now tenantId customerId ord d =
     check (excluded_order now tenantId (next_id d) customerId ord) (\<lambda>excluded.
       Inr (case find (order_conflict excluded) (orders d) of
              Some r \<Rightarrow> or_id r
            | None \<Rightarrow> or_id excluded,
            d\<lparr> orders :=
                  on_conflict_do_update (order_conflict excluded)
                    (order_do_update now excluded) excluded (orders d),
                next_id := Suc (next_id d) \<rparr>))"

definition excluded_line_item ::
  "int \<Rightarrow> string \<Rightarrow> nat \<Rightarrow> nat \<Rightarrow> ShopifyLineItem \<Rightarrow> error + line_item_row" where
  "excluded_line_item now tenantId newId orderId li =
     check (nullable as_bigint (li_id li)) (\<lambda>ext.
     check (as_integer (li_quantity li)) (\<lambda>quantity.
     check (as_decimal 10 (parseFloat_field (li_price li))) (\<lambda>price.
     check (as_varchar 500 (li_title li)) (\<lambda>title.
     check (as_varchar 255 (li_variant_title li)) (\<lambda>variant_title.
     check (as_varchar 255 (li_sku li)) (\<lambda>sku.
     check (not_null ''shopify_line_item_id'' ext) (\<lambda>shopify_line_item_id.
       Inr \<lparr> lr_id = newId, lr_tenant_id = tenantId, lr_order_id = orderId,
             lr_shopify_line_item_id = shopify_line_item_id, lr_quantity = quantity,
             lr_price = price, lr_title = title,
             lr_variant_title = variant_title, lr_sku = sku,
             lr_created_at = now \<rparr>)))))))"

definition line_item_conflict :: "line_item_row \<Rightarrow> line_item_row \<Rightarrow> bool" where
  "line_item_conflict excluded r =
     (lr_tenant_id r = lr_tenant_id excluded \<and>
      lr_shopify_line_item_id r = lr_shopify_line_item_id excluded)"

definition line_item_do_update :: "line_item_row \<Rightarrow> line_item_row \<Rightarrow> line_item_row" where
  "line_item_do_update excluded r =
     r\<lparr> lr_order_id := lr_order_id excluded,
        lr_quantity := lr_quantity excluded,
        lr_price := lr_price excluded,
        lr_title := lr_title excluded,
        lr_variant_title := lr_variant_title excluded,
        lr_sku := lr_sku excluded \<rparr>"

definition upsert_line_item :: "int \<Rightarrow> string \<Rightarrow> nat \<Rightarrow> ShopifyLineItem \<Rightarrow> db \<Rightarrow> error + db" where
  "upsert_line_item now tenantId orderId li d =
     check (excluded_line_item now tenantId (next_id d) orderId li) (\<lambda>excluded.
       Inr (d\<lparr> order_line_items :=
                 on_conflict_do_update (line_item_conflict excluded)
                   (line_item_do_update excluded) excluded (order_line_items d),
               next_id := Suc (next_id d) \<rparr>))"

fun write_line_items :: "int \<Rightarrow> string \<Rightarrow> nat \<Rightarrow> ShopifyLineItem list \<Rightarrow> db \<Rightarrow> error + db" where
  "write_line_items now tenantId orderId [] d = Inr d"
| "write_line_items now tenantId orderId (li # lis) d =
     check (upsert_line_item now tenantId orderId li d)
       (\<lambda>d'. write_line_items now tenantId orderId lis d')"

definition write_order :: "int \<Rightarrow> string \<Rightarrow> ShopifyOrder \<Rightarrow> db \<Rightarrow> error + db" where
  "write_order now tenantId ord d =
     check (linked_customer tenantId (o_customer ord) d) (\<lambda>customerId.
     check (upsert_order now tenantId customerId ord d)
       (\<lambda>(orderId, d'). write_line_items now tenantId orderId (o_line_items ord) d'))"

section \<open>The ingestion orchestrator (services/data-ingestion.ts)\<close>

definition createSyncLog :: "string \<Rightarrow> string \<Rightarrow> db \<Rightarrow> nat \<times> db" where
  "createSyncLog tenantId syncType d =
     (next_id d,
      d\<lparr> sync_logs := sync_logs d @
             [\<lparr> sl_id = next_id d, sl_tenant_id = tenantId, sl_sync_type = syncType,
                sl_status = ''running'', sl_records_processed = 0,
                sl_error_message = None \<rparr>],
         next_id := Suc (next_id d) \<rparr>)"

definition completeSyncLog :: "nat \<Rightarrow> string \<Rightarrow> nat \<Rightarrow> string option \<Rightarrow> db \<Rightarrow> db" where
  "completeSyncLog logId status recordsProcessed errorMessage d =
     d\<lparr> sync_logs :=
          map (\<lambda>r. if sl_id r = logId
                    then r\<lparr> sl_status := status,
                            sl_records_processed := recordsProcessed,
                            sl_error_message := errorMessage \<rparr>
                    else r)
              (sync_logs d) \<rparr>"

text \<open>
  The checkpoint statement (lines 72 to 77): insert, or on the key \<open>(tenant_id, entity)\<close>
  set \<open>last_updated_at\<close> to \<open>GREATEST\<close> of the stored and the new value.
\<close>

definition upsert_checkpoint :: "string \<Rightarrow> string \<Rightarrow> int \<Rightarrow> db \<Rightarrow> db" where
  "upsert_checkpoint tenantId entity latestUpdated d =
     d\<lparr> sync_checkpoints :=
          (sync_checkpoints d)
            ((tenantId, entity) \<mapsto>
               (case sync_checkpoints d (tenantId, entity) of
                  None \<Rightarrow> latestUpdated
                | Some stored \<Rightarrow> max stored latestUpdated)) \<rparr>"

text \<open>
  What the environment does at one turn of the loop: the page fetch throws, or it returns a
  page. With the page come the value of \<open>NOW()\<close> in the page's transaction and the store's
  own failure of that transaction, if any (a lost connection, say). A run is driven by the
  list of these events, one for each fetch; the list running out before the loop ends
  stands for a source that never returns a short page. The statements on \<open>sync_logs\<close>
  and \<open>sync_checkpoints\<close> are taken to succeed, and foreign keys are not checked.
\<close>

datatype 'r page_event = FetchThrows error | Page "'r list" int "error option"

record run_state =
  rs_db :: db
  rs_sinceId :: "int option"
  rs_totalProcessed :: nat
  rs_maxUpdatedInRun :: "int option"
  rs_requests :: "request list"

datatype run_end = Completed run_state | Threw error run_state

text \<open>
  What differs between the three ingestion functions: the client method called, the
  statements run for one record, and the fields read for cursor and timestamp.
\<close>

record 'r entity =
  entityName :: string
  fetchPage :: "ShopifyAPIService \<Rightarrow> int \<Rightarrow> int option \<Rightarrow> int option \<Rightarrow> request"
  writeRecord :: "int \<Rightarrow> string \<Rightarrow> 'r \<Rightarrow> db \<Rightarrow> error + db"
  idOf :: "'r \<Rightarrow> int option"
  updatedAtOf :: "'r \<Rightarrow> int"

text \<open>The \<open>for\<close> loop inside the transaction callback: the first error ends it.\<close>

fun write_page :: "(int \<Rightarrow> string \<Rightarrow> 'r \<Rightarrow> db \<Rightarrow> error + db) \<Rightarrow> int \<Rightarrow> string \<Rightarrow> 'r list \<Rightarrow> db \<Rightarrow> error + db" where
  "write_page w now tenantId [] d = Inr d"
| "write_page w now tenantId (r # rs) d =
     (case w now tenantId r d of
        Inl e \<Rightarrow> Inl e
      | Inr d' \<Rightarrow> write_page w now tenantId rs d')"

text \<open>
  \<open>Database.transaction\<close> (database/connection.ts): an error rolls back and is thrown
  again, so on \<open>Inl\<close> the store is the one before the call.
\<close>

definition transaction :: "error option \<Rightarrow> (db \<Rightarrow> error + db) \<Rightarrow> db \<Rightarrow> error + db" where
  "transaction fault callback d = (case fault of Some e \<Rightarrow> Inl e | None \<Rightarrow> callback d)"

text \<open>Lines 55 to 60: the running maximum of \<open>new Date(c.updated_at || c.created_at)\<close>.\<close>

definition track_max :: "('r \<Rightarrow> int) \<Rightarrow> int option \<Rightarrow> 'r list \<Rightarrow> int option" where
  "track_max updatedAt m0 rs =
     foldl (\<lambda>m r. case m of
                     None \<Rightarrow> Some (updatedAt r)
                   | Some x \<Rightarrow> if updatedAt r > x then Some (updatedAt r) else Some x)
           m0 rs"

fun page_loop ::
  "'r entity \<Rightarrow> ShopifyAPIService \<Rightarrow> string \<Rightarrow> int option \<Rightarrow> 'r page_event list \<Rightarrow> run_state \<Rightarrow> run_end option" where
  "page_loop E api tenantId lastUpdatedAt [] st = None"
| "page_loop E api tenantId lastUpdatedAt (ev # evs) st =
     (let st1 = st\<lparr> rs_requests :=
                     rs_requests st @ [fetchPage E api 250 (rs_sinceId st) lastUpdatedAt] \<rparr>
      in case ev of
           FetchThrows e \<Rightarrow> Some (Threw e st1)
         | Page recs now fault \<Rightarrow>
             if length recs = 0 then Some (Completed st1)
             else
               (case transaction fault (write_page (writeRecord E) now tenantId recs) (rs_db st1) of
                  Inl e \<Rightarrow> Some (Threw e st1)
                | Inr d' \<Rightarrow>
                    (let st2 = st1\<lparr> rs_db := d',
                                    rs_totalProcessed := rs_totalProcessed st1 + length recs,
                                    rs_sinceId := idOf E (last recs),
                                    rs_maxUpdatedInRun :=
                                      track_max (updatedAtOf E) (rs_maxUpdatedInRun st1) recs \<rparr>
                     in if length recs < 250 then Some (Completed st2)
                        else page_loop E api tenantId lastUpdatedAt evs st2)))"

text \<open>
  The end of a run: lines 69 to 79 after the loop, lines 80 to 84 in the \<open>catch\<close>. The
  result is what the caller gets (\<open>Inr processed\<close> for \<open>{success: true, processed}\<close>,
  \<open>Inl\<close> for the error thrown again), the store, and the requests sent to the source.
\<close>

definition finish_run ::
  "string \<Rightarrow> string \<Rightarrow> nat \<Rightarrow> run_end \<Rightarrow> (error + nat) \<times> db \<times> request list" where
  "finish_run tenantId entity logId e =
     (case e of
        Completed st \<Rightarrow>
          (let d1 = completeSyncLog logId ''completed'' (rs_totalProcessed st) None (rs_db st);
               d2 = (case rs_maxUpdatedInRun st of
                       None \<Rightarrow> d1
                     | Some latestUpdated \<Rightarrow>
                         if rs_totalProcessed st > 0
                         then upsert_checkpoint tenantId entity latestUpdated d1
                         else d1)
           in (Inr (rs_totalProcessed st), d2, rs_requests st))
      | Threw err st \<Rightarrow>
          (Inl err,
           completeSyncLog logId ''failed'' (rs_totalProcessed st) (Some (message err)) (rs_db st),
           rs_requests st))"

definition initial_state :: "db \<Rightarrow> run_state" where
  "initial_state d =
     \<lparr> rs_db = d, rs_sinceId = None, rs_totalProcessed = 0, rs_maxUpdatedInRun = None,
       rs_requests = [] \<rparr>"

definition updatedAt_or_createdAt :: "int option \<Rightarrow> int \<Rightarrow> int" where
  "updatedAt_or_createdAt u c = (case u of Some t \<Rightarrow> t | None \<Rightarrow> c)"

definition customersEntity :: "ShopifyCustomer entity" where
  "customersEntity =
     \<lparr> entityName = ''customers'', fetchPage = getCustomers_call3,
       writeRecord = write_customer, idOf = c_id,
       updatedAtOf = (\<lambda>c. updatedAt_or_createdAt (c_updated_at c) (c_created_at c)) \<rparr>"

text \<open>\<open>ingestCustomers\<close> reads the checkpoint, then opens the log.\<close>

definition ingestCustomers ::
  "string \<Rightarrow> string \<Rightarrow> string option \<Rightarrow> ShopifyCustomer page_event list \<Rightarrow> db
     \<Rightarrow> ((error + nat) \<times> db \<times> request list) option" where
  "ingestCustomers tenantId shopDomain token script d =
     (let shopify = newShopifyAPIService shopDomain token;
          lastUpdatedAt = sync_checkpoints d (tenantId, ''customers'');
          (logId, d1) = createSyncLog tenantId ''customers'' d
      in map_option (finish_run tenantId ''customers'' logId)
           (page_loop customersEntity shopify tenantId lastUpdatedAt script (initial_state d1)))"


definition productsEntity :: "ShopifyProduct entity" where
  "productsEntity =
     \<lparr> entityName = ''products'', fetchPage = getProducts_call3,
       writeRecord = write_product, idOf = p_id,
       updatedAtOf = (\<lambda>p. updatedAt_or_createdAt (p_updated_at p) (p_created_at p)) \<rparr>"

definition ordersEntity :: "ShopifyOrder entity" where
  "ordersEntity =
     \<lparr> entityName = ''orders'', fetchPage = getOrders_call3,
       writeRecord = write_order, idOf = o_id,
       updatedAtOf = (\<lambda>ord. updatedAt_or_createdAt (o_updated_at ord) (o_created_at ord)) \<rparr>"

text \<open>\<open>ingestProducts\<close> and \<open>ingestOrders\<close> open the log, then read the checkpoint.\<close>

definition ingestProducts ::
  "string \<Rightarrow> string \<Rightarrow> string option \<Rightarrow> ShopifyProduct page_event list \<Rightarrow> db
     \<Rightarrow> ((error + nat) \<times> db \<times> request list) option" where
  "ingestProducts tenantId shopDomain token script d =
     (let shopify = newShopifyAPIService shopDomain token;
          (logId, d1) = createSyncLog tenantId ''products'' d;
          lastUpdatedAt = sync_checkpoints d1 (tenantId, ''products'')
      in map_option (finish_run tenantId ''products'' logId)
           (page_loop productsEntity shopify tenantId lastUpdatedAt script (initial_state d1)))"

definition ingestOrders ::
  "string \<Rightarrow> string \<Rightarrow> string option \<Rightarrow> ShopifyOrder page_event list \<Rightarrow> db
     \<Rightarrow> ((error + nat) \<times> db \<times> request list) option" where
  "ingestOrders tenantId shopDomain token script d =
     (let shopify = newShopifyAPIService shopDomain token;
          (logId, d1) = createSyncLog tenantId ''orders'' d;
          lastUpdatedAt = sync_checkpoints d1 (tenantId, ''orders'')
      in map_option (finish_run tenantId ''orders'' logId)
           (page_loop ordersEntity shopify tenantId lastUpdatedAt script (initial_state d1)))"


text \<open>
  One run of one entity type, and runs one after the other, each on the store the one
  before left. A run that does not end leaves no store.
\<close>

datatype ingestion =
    Customers "ShopifyCustomer page_event list"
  | Products "ShopifyProduct page_event list"
  | Orders "ShopifyOrder page_event list"

fun entity_of :: "ingestion \<Rightarrow> string" where
  "entity_of (Customers script) = ''customers''"
| "entity_of (Products script) = ''products''"
| "entity_of (Orders script) = ''orders''"

fun ingestEntity ::
  "string \<Rightarrow> string \<Rightarrow> string option \<Rightarrow> ingestion \<Rightarrow> db
     \<Rightarrow> ((error + nat) \<times> db \<times> request list) option" where
  "ingestEntity tenantId shopDomain token (Customers script) d =
     ingestCustomers tenantId shopDomain token script d"
| "ingestEntity tenantId shopDomain token (Products script) d =
     ingestProducts tenantId shopDomain token script d"
| "ingestEntity tenantId shopDomain token (Orders script) d =
     ingestOrders tenantId shopDomain token script d"

fun run_sequence :: "(string \<times> string \<times> string option \<times> ingestion) list \<Rightarrow> db \<Rightarrow> db option" where
  "run_sequence [] d = Some d"
| "run_sequence ((tenantId, shopDomain, token, run) # runs) d =
     (case ingestEntity tenantId shopDomain token run d of
        None \<Rightarrow> None
      | Some (res, d', reqs) \<Rightarrow> run_sequence runs d')"

text \<open>What a run's events hold: the size of each page and its records.\<close>

fun page_size :: "'r page_event \<Rightarrow> nat" where
  "page_size (FetchThrows e) = 0"
| "page_size (Page recs now fault) = length recs"

fun page_records :: "'r page_event \<Rightarrow> 'r list" where
  "page_records (FetchThrows e) = []"
| "page_records (Page recs now fault) = recs"

fun page_sizes :: "ingestion \<Rightarrow> nat list" where
  "page_sizes (Customers script) = map page_size script"
| "page_sizes (Products script) = map page_size script"
| "page_sizes (Orders script) = map page_size script"

fun page_stamps :: "ingestion \<Rightarrow> int list list" where
  "page_stamps (Customers script) =
     map (\<lambda>ev. map (updatedAtOf customersEntity) (page_records ev)) script"
| "page_stamps (Products script) =
     map (\<lambda>ev. map (updatedAtOf productsEntity) (page_records ev)) script"
| "page_stamps (Orders script) =
     map (\<lambda>ev. map (updatedAtOf ordersEntity) (page_records ev)) script"

fun end_state :: "run_end \<Rightarrow> run_state" where
  "end_state (Completed st) = st"
| "end_state (Threw e st) = st"


section \<open>The manual trigger (routes/api.ts)\<close>

datatype ingest_response =
    Ingested "(string \<times> nat) list"
  | BadRequest400 string
  | Forbidden403
  | NotFound404
  | Failed500 string

record ingest_scripts =
  customers_script :: "ShopifyCustomer page_event list"
  products_script :: "ShopifyProduct page_event list"
  orders_script :: "ShopifyOrder page_event list"

text \<open>\<open>!data_types || data_types.includes(name)\<close>\<close>

definition wanted :: "string list option \<Rightarrow> string \<Rightarrow> bool" where
  "wanted data_types name =
     (case data_types of None \<Rightarrow> True | Some names \<Rightarrow> List.member names name)"

text \<open>
  One of the three \<open>if\<close> blocks of the handler: \<open>acc\<close> is what the blocks before it
  left, the results so far or the error that has been thrown.
\<close>

definition ingest_step ::
  "bool \<Rightarrow> string \<Rightarrow> (db \<Rightarrow> ((error + nat) \<times> db \<times> request list) option)
     \<Rightarrow> ((error + (string \<times> nat) list) \<times> db) option
     \<Rightarrow> ((error + (string \<times> nat) list) \<times> db) option" where
  "ingest_step wants name run acc =
     (case acc of
        None \<Rightarrow> None
      | Some (Inl e, d) \<Rightarrow> Some (Inl e, d)
      | Some (Inr results, d) \<Rightarrow>
          if wants then
            (case run d of
               None \<Rightarrow> None
             | Some (Inl e, d', reqs) \<Rightarrow> Some (Inl e, d')
             | Some (Inr n, d', reqs) \<Rightarrow> Some (Inr (results @ [(name, n)]), d'))
          else Some (Inr results, d))"

definition ingest_selected ::
  "string \<Rightarrow> string \<Rightarrow> string option \<Rightarrow> string list option \<Rightarrow> ingest_scripts \<Rightarrow> db
     \<Rightarrow> (ingest_response \<times> db) option" where
  "ingest_selected tenantId shopDomain token data_types scripts d =
     (case ingest_step (wanted data_types ''orders'') ''orders''
             (ingestOrders tenantId shopDomain token (orders_script scripts))
             (ingest_step (wanted data_types ''products'') ''products''
                (ingestProducts tenantId shopDomain token (products_script scripts))
                (ingest_step (wanted data_types ''customers'') ''customers''
                   (ingestCustomers tenantId shopDomain token (customers_script scripts))
                   (Some (Inr [], d)))) of
        None \<Rightarrow> None
      | Some (Inl e, d') \<Rightarrow> Some (Failed500 (message e), d')
      | Some (Inr results, d') \<Rightarrow> Some (Ingested results, d'))"

text \<open>\<open>POST /tenants/:tenantId/ingest\<close> of routes/api.ts, lines 47 to 87.\<close>

definition post_tenants_ingest ::
  "string \<Rightarrow> string list option \<Rightarrow> ingest_scripts \<Rightarrow> db \<Rightarrow> (ingest_response \<times> db) option" where
  "post_tenants_ingest tenantId data_types scripts d =
     (case find (\<lambda>t. t_id t = tenantId) (tenants d) of
        None \<Rightarrow> Some (NotFound404, d)
      | Some tenantData \<Rightarrow>
          ingest_selected tenantId (t_shop_domain tenantData) (t_access_token tenantData)
            data_types scripts d)"

text \<open>
  The handler of the same route in the second listing of the router, the one that
  follows middleware/response.ts in the sources and sits behind \<open>adminSessionAuth\<close>, \<open>multiAuth\<close> and \<open>ensureTenantAccess\<close>). \<open>reqTenantId\<close> is
  \<open>req.tenantId\<close> as the middleware left it, and \<open>decrypt\<close> is \<open>decryptToken\<close> when
  \<open>TOKEN_ENCRYPTION_KEY\<close> is set.
\<close>

definition post_tenants_ingest_guarded ::
  "string option \<Rightarrow> (string \<Rightarrow> error + string) option \<Rightarrow> string \<Rightarrow> string list option
     \<Rightarrow> ingest_scripts \<Rightarrow> db \<Rightarrow> (ingest_response \<times> db) option" where
  "post_tenants_ingest_guarded reqTenantId decrypt tenantId data_types scripts d =
     (if reqTenantId \<noteq> None \<and> reqTenantId \<noteq> Some [] \<and> reqTenantId \<noteq> Some tenantId
      then Some (Forbidden403, d)
      else
        (case find (\<lambda>t. t_id t = tenantId) (tenants d) of
           None \<Rightarrow> Some (NotFound404, d)
         | Some tenantData \<Rightarrow>
             (case t_access_token tenantData of
                None \<Rightarrow> Some (BadRequest400 ''Tenant not connected to Shopify yet (missing access token)'', d)
              | Some stored \<Rightarrow>
                  if stored = []
                  then Some (BadRequest400 ''Tenant not connected to Shopify yet (missing access token)'', d)
                  else
                    (case decrypt of
                       None \<Rightarrow>
                         ingest_selected tenantId (t_shop_domain tenantData) (Some stored)
                           data_types scripts d
                     | Some dec \<Rightarrow>
                         (case dec stored of
                            Inl e \<Rightarrow> Some (Failed500 ''Failed to decrypt tenant access token'', d)
                          | Inr token \<Rightarrow>
                              ingest_selected tenantId (t_shop_domain tenantData) (Some token)
                                data_types scripts d)))))"



section \<open>The webhook receiver (services/webhook-handler.ts)\<close>

datatype webhook_response =
    Unauthorized401 | TenantNotFound404 | Success200 | Duplicate200 | InternalError500

record 'b webhook_request =
  wh_rawBody :: string
  wh_shopDomain :: "string option"
  wh_signature :: "string option"
  wh_body :: 'b

text \<open>
  Of a cart and of a checkout the handlers read the token, the customer and the
  identifier; \<open>ca_json\<close> and \<open>ck_json\<close> are the text \<open>JSON.stringify\<close> gives the whole
  body.
\<close>

record cart_payload =
  ca_token :: "string option"
  ca_customer :: "ShopifyCustomer option"
  ca_json :: string

record checkout_payload =
  ck_id :: "int option"
  ck_customer :: "ShopifyCustomer option"
  ck_cart_token :: "string option"
  ck_json :: string

text \<open>
  \<open>verifyWebhook\<close>: \<open>H key data\<close> is the base64 text of the HMAC-SHA256 of \<open>data\<close> under
  \<open>key\<close>, the function of Node's \<open>crypto\<close>, which is a parameter here. A request without
  the signature header compares \<open>undefined\<close> and fails.
\<close>

definition verifyWebhook ::
  "(string \<Rightarrow> string \<Rightarrow> string) \<Rightarrow> string \<Rightarrow> string \<Rightarrow> string option \<Rightarrow> bool" where
  "verifyWebhook H webhookSecret rawBody signature = (Some (H webhookSecret rawBody) = signature)"

definition getTenantByDomain :: "string option \<Rightarrow> db \<Rightarrow> tenant_row option" where
  "getTenantByDomain shopDomain d =
     (case shopDomain of
        None \<Rightarrow> None
      | Some name \<Rightarrow> find (\<lambda>t. t_shop_domain t = name) (tenants d))"

text \<open>
  \<open>INSERT INTO webhook_receipts\<close> under \<open>UNIQUE(tenant_id, topic, external_id)\<close>, with
  \<open>external_id BIGINT\<close>. A \<open>NULL\<close> external id never conflicts: the constraint treats
  nulls as distinct.
\<close>

definition insert_receipt :: "string \<Rightarrow> string \<Rightarrow> int option \<Rightarrow> db \<Rightarrow> error + db" where
  "insert_receipt tenantId topic externalId d =
     check (nullable as_bigint externalId) (\<lambda>external_id.
       if external_id \<noteq> None \<and>
          list_ex (\<lambda>r. wr_tenant_id r = tenantId \<and> wr_topic r = topic \<and>
                        wr_external_id r = external_id)
                  (webhook_receipts d)
       then Inl (unique_violation ''webhook_receipts'')
       else Inr (d\<lparr> webhook_receipts := webhook_receipts d @
                      [\<lparr> wr_tenant_id = tenantId, wr_topic = topic,
                         wr_external_id = external_id \<rparr>] \<rparr>))"

text \<open>
  \<open>INSERT INTO custom_events\<close>, with \<open>event_data JSONB\<close> and \<open>cart_token VARCHAR(255)\<close>.
\<close>

definition insert_custom_event ::
  "int \<Rightarrow> string \<Rightarrow> nat option \<Rightarrow> string \<Rightarrow> string \<Rightarrow> string option \<Rightarrow> db \<Rightarrow> error + db" where
  "insert_custom_event now tenantId customerId eventType eventData cartToken d =
     check (as_jsonb eventData) (\<lambda>event_data.
     check (nullable (as_varchar 255) cartToken) (\<lambda>cart_token.
       Inr (d\<lparr> custom_events := custom_events d @
                 [\<lparr> ce_id = next_id d, ce_tenant_id = tenantId, ce_customer_id = customerId,
                    ce_event_type = eventType, ce_event_data = event_data,
                    ce_cart_token = cart_token, ce_created_at = now \<rparr>],
               next_id := Suc (next_id d) \<rparr>)))"

text \<open>\<open>customer.total_spent || '0'\<close>: an absent or empty value becomes \<open>'0'\<close>.\<close>

definition total_spent_or_0 :: "string option \<Rightarrow> string" where
  "total_spent_or_0 f = (case f of None \<Rightarrow> ''0'' | Some s \<Rightarrow> if s = [] then ''0'' else s)"

text \<open>
  The handlers run their statements one by one, outside a transaction: the receipt is
  stored by its own statement, and when a later statement throws, the outer \<open>catch\<close>
  answers 500 and the receipt stays.
\<close>

definition handleCustomerUpdate ::
  "(string \<Rightarrow> string \<Rightarrow> string) \<Rightarrow> string \<Rightarrow> int \<Rightarrow> ShopifyCustomer webhook_request \<Rightarrow> db
     \<Rightarrow> webhook_response \<times> db" where
  "handleCustomerUpdate H webhookSecret now req d =
     (if \<not> verifyWebhook H webhookSecret (wh_rawBody req) (wh_signature req)
      then (Unauthorized401, d)
      else
        (case getTenantByDomain (wh_shopDomain req) d of
           None \<Rightarrow> (TenantNotFound404, d)
         | Some tenant \<Rightarrow>
             (let customer = wh_body req
              in case insert_receipt (t_id tenant) ''customers/update'' (c_id customer) d of
                   Inl e \<Rightarrow>
                     if code e = Some ''23505'' then (Duplicate200, d) else (InternalError500, d)
                 | Inr d1 \<Rightarrow>
                     (case upsert_customer now (t_id tenant) customer
                             (parseFloat (total_spent_or_0 (c_total_spent customer))) d1 of
                        Inl e \<Rightarrow> (InternalError500, d1)
                      | Inr d2 \<Rightarrow> (Success200, d2)))))"

text \<open>
  The receipt key of a cart: \<open>Buffer.from(token).toString('hex').slice(0,12)\<close> read by
  \<open>parseInt(_, 16)\<close>. \<open>parseInt\<close> reads the leading hexadecimal digits and gives
  \<open>NaN\<close>, here \<open>None\<close>, when there is none. An empty token is false in
  \<open>cartData?.token ? ... : null\<close>.
\<close>

definition hexDigit :: "nat \<Rightarrow> char" where
  "hexDigit n = ''0123456789abcdef'' ! n"

definition toHex :: "string \<Rightarrow> string" where
  "toHex bytes =
     concat (map (\<lambda>c. [hexDigit ((of_char c :: nat) div 16), hexDigit ((of_char c :: nat) mod 16)])
                 bytes)"

definition hexValue :: "char \<Rightarrow> nat option" where
  "hexValue c =
     (let n = (of_char c :: nat)
      in if 48 \<le> n \<and> n \<le> 57 then Some (n - 48)
         else if 97 \<le> n \<and> n \<le> 102 then Some (n - 87)
         else if 65 \<le> n \<and> n \<le> 70 then Some (n - 55)
         else None)"

definition parseInt16 :: "string \<Rightarrow> int option" where
  "parseInt16 s =
     (let ds = takeWhile (\<lambda>c. hexValue c \<noteq> None) s
      in if ds = [] then None
         else Some (int (foldl (\<lambda>a c. 16 * a + the (hexValue c)) 0 ds)))"

definition cart_receipt_key :: "string option \<Rightarrow> int option" where
  "cart_receipt_key token =
     (case token of
        None \<Rightarrow> None
      | Some t \<Rightarrow> if t = [] then None else parseInt16 (take 12 (toHex t)))"

definition handleCartAbandoned ::
  "(string \<Rightarrow> string \<Rightarrow> string) \<Rightarrow> string \<Rightarrow> int \<Rightarrow> cart_payload webhook_request \<Rightarrow> db
     \<Rightarrow> webhook_response \<times> db" where
  "handleCartAbandoned H webhookSecret now req d =
     (if \<not> verifyWebhook H webhookSecret (wh_rawBody req) (wh_signature req)
      then (Unauthorized401, d)
      else
        (case getTenantByDomain (wh_shopDomain req) d of
           None \<Rightarrow> (TenantNotFound404, d)
         | Some tenant \<Rightarrow>
             (let cartData = wh_body req
              in case insert_receipt (t_id tenant) ''carts/abandoned''
                        (cart_receipt_key (ca_token cartData)) d of
                   Inl e \<Rightarrow>
                     if code e = Some ''23505'' then (Duplicate200, d) else (InternalError500, d)
                 | Inr d1 \<Rightarrow>
                     (case linked_customer (t_id tenant) (ca_customer cartData) d1 of
                        Inl e \<Rightarrow> (InternalError500, d1)
                      | Inr customerId \<Rightarrow>
                          (case insert_custom_event now (t_id tenant) customerId
                                  ''cart_abandoned'' (ca_json cartData) (ca_token cartData) d1 of
                             Inl e \<Rightarrow> (InternalError500, d1)
                           | Inr d2 \<Rightarrow> (Success200, d2))))))"

definition handleCheckoutStarted ::
  "(string \<Rightarrow> string \<Rightarrow> string) \<Rightarrow> string \<Rightarrow> int \<Rightarrow> checkout_payload webhook_request \<Rightarrow> db
     \<Rightarrow> webhook_response \<times> db" where
  "handleCheckoutStarted H webhookSecret now req d =
     (if \<not> verifyWebhook H webhookSecret (wh_rawBody req) (wh_signature req)
      then (Unauthorized401, d)
      else
        (case getTenantByDomain (wh_shopDomain req) d of
           None \<Rightarrow> (TenantNotFound404, d)
         | Some tenant \<Rightarrow>
             (let checkoutData = wh_body req
              in case insert_receipt (t_id tenant) ''checkouts/create'' (ck_id checkoutData) d of
                   Inl e \<Rightarrow>
                     if code e = Some ''23505'' then (Duplicate200, d) else (InternalError500, d)
                 | Inr d1 \<Rightarrow>
                     (case linked_customer (t_id tenant) (ck_customer checkoutData) d1 of
                        Inl e \<Rightarrow> (InternalError500, d1)
                      | Inr customerId \<Rightarrow>
                          (case insert_custom_event now (t_id tenant) customerId
                                  ''checkout_started'' (ck_json checkoutData)
                                  (ck_cart_token checkoutData) d1 of
                             Inl e \<Rightarrow> (InternalError500, d1)
                           | Inr d2 \<Rightarrow> (Success200, d2))))))"

section \<open>Notions the properties are stated with\<close>

text \<open>
  The three ingestion functions are the same run, taken at the three entities, once the
  checkpoint read and the log insert are put in one order (neither changes what the other
  reads).
\<close>

definition run_of ::
  "'r entity \<Rightarrow> ShopifyAPIService \<Rightarrow> string \<Rightarrow> 'r page_event list \<Rightarrow> db
     \<Rightarrow> ((error + nat) \<times> db \<times> request list) option" where
  "run_of E api t script d =
     map_option (finish_run t (entityName E) (next_id d))
       (page_loop E api t (sync_checkpoints d (t, entityName E)) script
          (initial_state (snd (createSyncLog t (entityName E) d))))"

text \<open>A page that is empty or shorter than the 250 records asked for.\<close>

fun short_page :: "'r page_event \<Rightarrow> bool" where
  "short_page (FetchThrows e) = False"
| "short_page (Page recs now fault) = (length recs < 250)"

fun short_pages :: "ingestion \<Rightarrow> bool list" where
  "short_pages (Customers script) = map short_page script"
| "short_pages (Products script) = map short_page script"
| "short_pages (Orders script) = map short_page script"

text \<open>
  The greatest source timestamp among the records of the first \<open>k\<close> pages of a run, and
  the greater of a stored checkpoint, if any, and a new value.
\<close>

definition run_max :: "ingestion \<Rightarrow> nat \<Rightarrow> int" where
  "run_max run k = Max (set (concat (take k (page_stamps run))))"

definition raised :: "int option \<Rightarrow> int \<Rightarrow> int" where
  "raised stored m = (case stored of None \<Rightarrow> m | Some s \<Rightarrow> max s m)"









definition product_key :: "string \<Rightarrow> int \<Rightarrow> product_row \<Rightarrow> bool" where
  "product_key tid k r = (pr_tenant_id r = tid \<and> pr_shopify_product_id r = k)"

definition variant_key :: "string \<Rightarrow> int \<Rightarrow> variant_row \<Rightarrow> bool" where
  "variant_key tid k r = (vr_tenant_id r = tid \<and> vr_shopify_variant_id r = k)"

definition order_key :: "string \<Rightarrow> int \<Rightarrow> order_row \<Rightarrow> bool" where
  "order_key tid k r = (or_tenant_id r = tid \<and> or_shopify_order_id r = k)"

definition line_item_key :: "string \<Rightarrow> int \<Rightarrow> line_item_row \<Rightarrow> bool" where
  "line_item_key tid k r = (lr_tenant_id r = tid \<and> lr_shopify_line_item_id r = k)"


section \<open>Example data\<close>

definition example_db :: db where
  "example_db =
     \<lparr> tenants = [\<lparr> t_id = ''t1'', t_shop_domain = ''shop.myshopify.com'',
                    t_access_token = Some ''tok'', t_status = ''active'' \<rparr>],
       customers = [], products = [], product_variants = [], orders = [],
       order_line_items = [], custom_events = [], sync_logs = [],
       sync_checkpoints = [(''t1'', ''customers'') \<mapsto> 1000],
       webhook_receipts = [], next_id = 0 \<rparr>"

definition example_customer :: "int \<Rightarrow> ShopifyCustomer" where
  "example_customer n =
     \<lparr> c_id = Some n, c_email = ''a@b.c'', c_first_name = ''A'', c_last_name = ''B'',
       c_phone = [], c_created_at = 10, c_updated_at = Some 2000,
       c_total_spent = Some ''12.50'', c_orders_count = 1 \<rparr>"

definition older_customer :: ShopifyCustomer where
  "older_customer =
     \<lparr> c_id = Some 8, c_email = ''x@y.z'', c_first_name = ''X'', c_last_name = ''Y'',
       c_phone = [], c_created_at = 20, c_updated_at = Some 1500,
       c_total_spent = Some ''3'', c_orders_count = 0 \<rparr>"


text \<open>An example tenant without a credential, and a source that answers 401.\<close>

definition tokenless_db :: db where
  "tokenless_db =
     \<lparr> tenants = [\<lparr> t_id = ''t1'', t_shop_domain = ''shop.myshopify.com'',
                    t_access_token = None, t_status = ''active'' \<rparr>],
       customers = [], products = [], product_variants = [], orders = [],
       order_line_items = [], custom_events = [], sync_logs = [],
       sync_checkpoints = Map.empty,
       webhook_receipts = [], next_id = 0 \<rparr>"

definition unauthorized_scripts :: ingest_scripts where
  "unauthorized_scripts =
     \<lparr> customers_script = [FetchThrows (Error ''Request failed with status code 401'')],
       products_script = [FetchThrows (Error ''Request failed with status code 401'')],
       orders_script = [FetchThrows (Error ''Request failed with status code 401'')] \<rparr>"

definition example_hmac :: "string \<Rightarrow> string \<Rightarrow> string" where
  "example_hmac key bytes = key @ ''/'' @ bytes"

definition customer_delivery :: "ShopifyCustomer webhook_request" where
  "customer_delivery =
     \<lparr> wh_rawBody = ''{customer 7}'', wh_shopDomain = Some ''shop.myshopify.com'',
       wh_signature = Some ''secret/{customer 7}'', wh_body = example_customer 7 \<rparr>"

definition cart_delivery :: "string option \<Rightarrow> cart_payload webhook_request" where
  "cart_delivery token =
     \<lparr> wh_rawBody = ''{cart}'', wh_shopDomain = Some ''shop.myshopify.com'',
       wh_signature = Some ''secret/{cart}'',
       wh_body = \<lparr> ca_token = token, ca_customer = None, ca_json = ''{cart}'' \<rparr> \<rparr>"

definition checkout_delivery :: "checkout_payload webhook_request" where
  "checkout_delivery =
     \<lparr> wh_rawBody = ''{checkout 55}'', wh_shopDomain = Some ''shop.myshopify.com'',
       wh_signature = Some ''secret/{checkout 55}'',
       wh_body = \<lparr> ck_id = Some 55, ck_customer = None, ck_cart_token = Some ''abcdefgh'',
                   ck_json = ''{checkout 55}'' \<rparr> \<rparr>"




definition example_variant :: ShopifyVariant where
  "example_variant =
     \<lparr> v_id = Some 31, v_title = ''Small'', v_price = Some ''9.99'', v_sku = ''SKU-S'',
       v_inventory_quantity = 4, v_weight = Finite False 120 0, v_created_at = Some 10,
       v_updated_at = Some 2000 \<rparr>"

definition example_product :: ShopifyProduct where
  "example_product =
     \<lparr> p_id = Some 3, p_title = ''Shirt'', p_body_html = [], p_vendor = ''Acme'',
       p_product_type = ''apparel'', p_created_at = 10, p_updated_at = Some 2000,
       p_published_at = None, p_handle = ''shirt'', p_tags = [], p_status = ''active'',
       p_variants = [example_variant] \<rparr>"

definition example_line_item :: ShopifyLineItem where
  "example_line_item =
     \<lparr> li_id = Some 41, li_quantity = 2, li_price = Some ''9.99'', li_title = ''Shirt'',
       li_variant_title = ''Small'', li_sku = ''SKU-S'' \<rparr>"

definition example_order :: ShopifyOrder where
  "example_order =
     \<lparr> o_id = Some 101, o_order_number = 1001, o_customer = Some (example_customer 7),
       o_line_items = [example_line_item], o_total_price = Some ''19.98'',
       o_subtotal_price = Some ''19.98'', o_total_tax = Some ''0.00'', o_currency = ''USD'',
       o_financial_status = ''paid'', o_fulfillment_status = ''fulfilled'',
       o_created_at = 10, o_updated_at = Some 2000, o_shipping_address = ''{}'',
       o_billing_address = ''{}'' \<rparr>"

definition unparsable_customer :: ShopifyCustomer where
  "unparsable_customer = (example_customer 7)\<lparr> c_total_spent := Some ''abc'' \<rparr>"

definition blank_total_delivery :: "ShopifyCustomer webhook_request" where
  "blank_total_delivery =
     customer_delivery\<lparr> wh_body := (example_customer 7)\<lparr> c_total_spent := Some [] \<rparr> \<rparr>"




section \<open>What the columns take\<close>

lemma check_simps [simp]: "check (Inl e) f = Inl e" "check (Inr v) f = f v"
  by (simp_all add: check_def)

lemma check_eq_Inr: "(check r f = Inr y) = (\<exists>v. r = Inr v \<and> f v = Inr y)"
  by (cases r) simp_all


lemma as_bigint_Inr: "(as_bigint n = Inr m) = (m = n \<and> - (2 ^ 63) \<le> n \<and> n < 2 ^ 63)"
  by (auto simp: as_bigint_def)

lemma nullable_bigint_Inr:
  "(nullable as_bigint v = Inr w) =
     (w = v \<and> (\<forall>n. v = Some n \<longrightarrow> - (2 ^ 63) \<le> n \<and> n < 2 ^ 63))"
  by (cases v) (auto simp: nullable_def check_eq_Inr as_bigint_Inr)

lemma not_null_Inr: "(not_null col v = Inr x) = (v = Some x)"
  by (cases v) (simp_all add: not_null_def)

lemma as_decimal_NaN: "as_decimal p NaN = Inr NumericNaN"
  by (simp add: as_decimal_def)

lemma as_decimal_zero: "as_decimal p (Finite neg 0 0) = Inr (Numeric 0)"
  by (simp add: as_decimal_def scaled_def)

lemma pow10_lt: "k \<le> 268 \<Longrightarrow> (10::nat) ^ k < 2 ^ 1075"
proof -
  assume k: "k \<le> 268"
  have "(10::nat) ^ k \<le> 16 ^ k" by (rule power_mono) simp_all
  also have "(16::nat) ^ k = 2 ^ (4 * k)" by (simp add: power_mult)
  also have "(2::nat) ^ (4 * k) < 2 ^ 1075" using k by (intro power_strict_increasing) simp_all
  finally show ?thesis .
qed

lemma big_bound: "(2::nat) ^ 64 \<le> 2 ^ 1024 - 2 ^ 970"
proof -
  have "(2::nat) ^ 1024 = 2 ^ 970 * 2 ^ 54" by (simp add: power_add[symmetric])
  then have "(2::nat) ^ 1024 - 2 ^ 970 = 2 ^ 970 * (2 ^ 54 - 1)" by (simp add: algebra_simps)
  moreover have "(2::nat) ^ 64 \<le> 2 ^ 970" by (rule power_increasing) simp_all
  moreover have "(1::nat) \<le> 2 ^ 54 - 1" by simp
  ultimately show ?thesis
    by (metis mult.right_neutral mult_le_mono)
qed

text \<open>A literal of ordinary size keeps its digits.\<close>

lemma toDouble_small:
  assumes "0 < m" "m < 2 ^ 64" "e \<le> 0" "- 268 \<le> e"
  shows "toDouble neg m e = Finite neg m e"
proof (cases "e = 0")
  case True
  with assms big_bound show ?thesis by (simp add: toDouble_def)
next
  case False
  with assms have e: "e < 0" by simp
  have a: "\<not> (2 ^ 1024 - 2 ^ 970) * 10 ^ nat (- e) \<le> m"
  proof
    assume h: "(2 ^ 1024 - 2 ^ 970) * 10 ^ nat (- e) \<le> m"
    have "(2::nat) ^ 64 * 1 \<le> (2 ^ 1024 - 2 ^ 970) * 10 ^ nat (- e)"
      by (rule mult_le_mono[OF big_bound]) simp
    from this h have "(2::nat) ^ 64 * 1 \<le> m" by (rule le_trans)
    with assms(2) show False by simp
  qed
  have "(10::nat) ^ nat (- e) < 2 ^ 1075" using assms(4) by (intro pow10_lt) simp
  also have "\<dots> \<le> m * 2 ^ 1075" using assms(1) by simp
  finally have b: "\<not> m * 2 ^ 1075 \<le> 10 ^ nat (- e)" by simp
  show ?thesis using assms(1) e a b by (simp add: toDouble_def)
qed

lemmas parse_defs = parseFloat_def isStrWhiteSpaceChar_def isWhiteSpace2_def isWhiteSpace3_def
  isDecimalDigit_def digitsValue_def parseExponent_def Let_def

lemma parseFloat_0: "parseFloat ''0'' = Finite False 0 0"
  by (simp add: parse_defs toDouble_def)

lemma parseFloat_abc: "parseFloat ''abc'' = NaN"
  by (simp add: parse_defs)

lemma parseFloat_empty: "parseFloat [] = NaN"
  by (simp add: parse_defs)

lemma parseFloat_examples:
  "parseFloat ''12.50'' = Finite False 1250 (- 2)"
  "parseFloat ''3'' = Finite False 3 0"
  "parseFloat ''9.99'' = Finite False 999 (- 2)"
  "parseFloat ''19.98'' = Finite False 1998 (- 2)"
  "parseFloat ''0.00'' = Finite False 0 0"
  "parseFloat ''100000000'' = Finite False 100000000 0"
  by (simp_all add: parse_defs toDouble_small toDouble_def)

lemma as_decimal_examples:
  "as_decimal 10 (Finite False 1250 (- 2)) = Inr (Numeric 1250)"
  "as_decimal 10 (Finite False 3 0) = Inr (Numeric 300)"
  "as_decimal 10 (Finite False 999 (- 2)) = Inr (Numeric 999)"
  "as_decimal 10 (Finite False 1998 (- 2)) = Inr (Numeric 1998)"
  "as_decimal 8 (Finite False 120 0) = Inr (Numeric 12000)"
  "as_decimal 10 (Finite False 100000000 0) = Inl (numeric_value_out_of_range ''numeric'')"
  by (simp_all add: as_decimal_def scaled_def)

lemmas column_defs = as_varchar_def as_text_def char_length_def as_integer_def as_jsonb_def

text \<open>
  The row a customer is proposed as, when every column takes its value; the same payload
  proposed at another time and under another generated identifier differs in these only.
\<close>

lemma excluded_customer_iff:
  "(excluded_customer now t n c s = Inr e) =
     (\<exists>k em fn ln ph ts oc.
        c_id c = Some k \<and> - (2 ^ 63) \<le> k \<and> k < 2 ^ 63 \<and>
        as_varchar 255 (c_email c) = Inr em \<and> as_varchar 255 (c_first_name c) = Inr fn \<and>
        as_varchar 255 (c_last_name c) = Inr ln \<and> as_varchar 50 (c_phone c) = Inr ph \<and>
        as_decimal 10 s = Inr ts \<and> as_integer (c_orders_count c) = Inr oc \<and>
        e = \<lparr> cr_id = n, cr_tenant_id = t, cr_shopify_customer_id = k, cr_email = em,
              cr_first_name = fn, cr_last_name = ln, cr_phone = ph, cr_total_spent = ts,
              cr_orders_count = oc, cr_created_at = now, cr_updated_at = now,
              cr_shopify_created_at = c_created_at c, cr_shopify_updated_at = c_updated_at c \<rparr>)"
  unfolding excluded_customer_def check_eq_Inr nullable_bigint_Inr not_null_Inr
  by auto

lemma excluded_customer_again:
  "excluded_customer now t n c s = Inr e \<Longrightarrow>
     excluded_customer now' t n' c s =
       Inr (e\<lparr> cr_id := n', cr_created_at := now', cr_updated_at := now' \<rparr>)"
  unfolding excluded_customer_iff by auto

lemma excluded_customer_key:
  "excluded_customer now t n c s = Inr e \<Longrightarrow>
     cr_tenant_id e = t \<and> c_id c = Some (cr_shopify_customer_id e) \<and> cr_updated_at e = now"
  unfolding excluded_customer_iff by auto

lemma excluded_product_iff:
  "(excluded_product now t n p = Inr e) =
     (\<exists>k ti bo ve pt ha ta st.
        p_id p = Some k \<and> - (2 ^ 63) \<le> k \<and> k < 2 ^ 63 \<and>
        as_varchar 500 (p_title p) = Inr ti \<and> as_text (p_body_html p) = Inr bo \<and>
        as_varchar 255 (p_vendor p) = Inr ve \<and> as_varchar 255 (p_product_type p) = Inr pt \<and>
        as_varchar 255 (p_handle p) = Inr ha \<and> as_text (p_tags p) = Inr ta \<and>
        as_varchar 50 (p_status p) = Inr st \<and>
        e = \<lparr> pr_id = n, pr_tenant_id = t, pr_shopify_product_id = k, pr_title = ti,
              pr_body_html = bo, pr_vendor = ve, pr_product_type = pt, pr_handle = ha,
              pr_tags = ta, pr_status = st, pr_created_at = now, pr_updated_at = now,
              pr_shopify_created_at = p_created_at p, pr_shopify_updated_at = p_updated_at p,
              pr_shopify_published_at = p_published_at p \<rparr>)"
  unfolding excluded_product_def check_eq_Inr nullable_bigint_Inr not_null_Inr
  by auto

lemma excluded_product_again:
  "excluded_product now t n p = Inr e \<Longrightarrow>
     excluded_product now' t n' p =
       Inr (e\<lparr> pr_id := n', pr_created_at := now', pr_updated_at := now' \<rparr>)"
  unfolding excluded_product_iff by auto

lemma excluded_product_key:
  "excluded_product now t n p = Inr e \<Longrightarrow>
     pr_tenant_id e = t \<and> p_id p = Some (pr_shopify_product_id e) \<and> pr_updated_at e = now \<and>
     pr_id e = n"
  unfolding excluded_product_iff by auto

lemma excluded_variant_iff:
  "(excluded_variant now t n pid v = Inr e) =
     (\<exists>k ti pc sk iq we.
        v_id v = Some k \<and> - (2 ^ 63) \<le> k \<and> k < 2 ^ 63 \<and>
        as_varchar 255 (v_title v) = Inr ti \<and>
        as_decimal 10 (parseFloat_field (v_price v)) = Inr pc \<and>
        as_varchar 255 (v_sku v) = Inr sk \<and> as_integer (v_inventory_quantity v) = Inr iq \<and>
        as_decimal 8 (v_weight v) = Inr we \<and>
        e = \<lparr> vr_id = n, vr_tenant_id = t, vr_product_id = pid, vr_shopify_variant_id = k,
              vr_title = ti, vr_price = pc, vr_sku = sk, vr_inventory_quantity = iq,
              vr_weight = we, vr_created_at = now, vr_updated_at = now,
              vr_shopify_created_at = v_created_at v,
              vr_shopify_updated_at = v_updated_at v \<rparr>)"
  unfolding excluded_variant_def check_eq_Inr nullable_bigint_Inr not_null_Inr
  by auto

lemma excluded_variant_again:
  "excluded_variant now t n pid v = Inr e \<Longrightarrow>
     excluded_variant now' t n' pid v =
       Inr (e\<lparr> vr_id := n', vr_created_at := now', vr_updated_at := now' \<rparr>)"
  unfolding excluded_variant_iff by auto

lemma excluded_variant_key:
  "excluded_variant now t n pid v = Inr e \<Longrightarrow>
     vr_tenant_id e = t \<and> v_id v = Some (vr_shopify_variant_id e) \<and> vr_updated_at e = now"
  unfolding excluded_variant_iff by auto

lemma excluded_order_iff:
  "(excluded_order now t n cid ord = Inr e) =
     (\<exists>k tp sp tt cu fs ff sa ba.
        o_id ord = Some k \<and> - (2 ^ 63) \<le> k \<and> k < 2 ^ 63 \<and>
        as_decimal 10 (parseFloat_field (o_total_price ord)) = Inr tp \<and>
        as_decimal 10 (parseFloat_field (o_subtotal_price ord)) = Inr sp \<and>
        as_decimal 10 (parseFloat_field (o_total_tax ord)) = Inr tt \<and>
        as_varchar 3 (o_currency ord) = Inr cu \<and>
        as_varchar 50 (o_financial_status ord) = Inr fs \<and>
        as_varchar 50 (o_fulfillment_status ord) = Inr ff \<and>
        as_jsonb (o_shipping_address ord) = Inr sa \<and>
        as_jsonb (o_billing_address ord) = Inr ba \<and>
        e = \<lparr> or_id = n, or_tenant_id = t, or_customer_id = cid, or_shopify_order_id = k,
              or_order_number = o_order_number ord, or_total_price = tp,
              or_subtotal_price = sp, or_total_tax = tt, or_currency = cu,
              or_financial_status = fs, or_fulfillment_status = ff,
              or_shipping_address = sa, or_billing_address = ba,
              or_created_at = now, or_updated_at = now,
              or_shopify_created_at = o_created_at ord,
              or_shopify_updated_at = o_updated_at ord \<rparr>)"
  unfolding excluded_order_def check_eq_Inr nullable_bigint_Inr not_null_Inr
  by auto

lemma excluded_order_again:
  "excluded_order now t n cid ord = Inr e \<Longrightarrow>
     excluded_order now' t n' cid ord =
       Inr (e\<lparr> or_id := n', or_created_at := now', or_updated_at := now' \<rparr>)"
  unfolding excluded_order_iff by auto

lemma excluded_order_key:
  "excluded_order now t n cid ord = Inr e \<Longrightarrow>
     or_tenant_id e = t \<and> o_id ord = Some (or_shopify_order_id e) \<and> or_updated_at e = now \<and>
     or_id e = n"
  unfolding excluded_order_iff by auto

lemma excluded_line_item_iff:
  "(excluded_line_item now t n oid li = Inr e) =
     (\<exists>k qu pc ti vt sk.
        li_id li = Some k \<and> - (2 ^ 63) \<le> k \<and> k < 2 ^ 63 \<and>
        as_integer (li_quantity li) = Inr qu \<and>
        as_decimal 10 (parseFloat_field (li_price li)) = Inr pc \<and>
        as_varchar 500 (li_title li) = Inr ti \<and>
        as_varchar 255 (li_variant_title li) = Inr vt \<and>
        as_varchar 255 (li_sku li) = Inr sk \<and>
        e = \<lparr> lr_id = n, lr_tenant_id = t, lr_order_id = oid, lr_shopify_line_item_id = k,
              lr_quantity = qu, lr_price = pc, lr_title = ti, lr_variant_title = vt,
              lr_sku = sk, lr_created_at = now \<rparr>)"
  unfolding excluded_line_item_def check_eq_Inr nullable_bigint_Inr not_null_Inr
  by auto

lemma excluded_line_item_again:
  "excluded_line_item now t n oid li = Inr e \<Longrightarrow>
     excluded_line_item now' t n' oid li = Inr (e\<lparr> lr_id := n', lr_created_at := now' \<rparr>)"
  unfolding excluded_line_item_iff by auto

lemma excluded_line_item_key:
  "excluded_line_item now t n oid li = Inr e \<Longrightarrow>
     lr_tenant_id e = t \<and> li_id li = Some (lr_shopify_line_item_id e)"
  unfolding excluded_line_item_iff by auto


section \<open>The writers leave checkpoints and logs alone\<close>

lemma write_customer_frame:
  "write_customer now t r d = Inr d' \<Longrightarrow>
     sync_checkpoints d' = sync_checkpoints d \<and> sync_logs d' = sync_logs d"
  by (auto simp: write_customer_def upsert_customer_def check_eq_Inr)

lemma write_variants_frame:
  "write_variants now t pid vs d = Inr d' \<Longrightarrow>
     sync_checkpoints d' = sync_checkpoints d \<and> sync_logs d' = sync_logs d"
proof (induction vs arbitrary: d)
  case Nil
  then show ?case by simp
next
  case (Cons v vs)
  then show ?case
    by (auto simp: upsert_variant_def check_eq_Inr)
qed

lemma write_product_frame:
  "write_product now t r d = Inr d' \<Longrightarrow>
     sync_checkpoints d' = sync_checkpoints d \<and> sync_logs d' = sync_logs d"
  by (auto simp: write_product_def upsert_product_def check_eq_Inr dest!: write_variants_frame)

lemma write_line_items_frame:
  "write_line_items now t oid lis d = Inr d' \<Longrightarrow>
     sync_checkpoints d' = sync_checkpoints d \<and> sync_logs d' = sync_logs d"
proof (induction lis arbitrary: d)
  case Nil
  then show ?case by simp
next
  case (Cons li lis)
  then show ?case
    by (auto simp: upsert_line_item_def check_eq_Inr)
qed

lemma write_order_frame:
  "write_order now t r d = Inr d' \<Longrightarrow>
     sync_checkpoints d' = sync_checkpoints d \<and> sync_logs d' = sync_logs d"
  by (auto simp: write_order_def upsert_order_def check_eq_Inr dest!: write_line_items_frame)

lemma write_page_frame:
  assumes w: "\<And>now t r d d'. w now t r d = Inr d' \<Longrightarrow>
     sync_checkpoints d' = sync_checkpoints d \<and> sync_logs d' = sync_logs d"
  shows "write_page w now t rs d = Inr d' \<Longrightarrow>
     sync_checkpoints d' = sync_checkpoints d \<and> sync_logs d' = sync_logs d"
proof (induction rs arbitrary: d)
  case Nil
  then show ?case by simp
next
  case (Cons r rs)
  then show ?case
    by (auto split: sum.splits dest!: w)
qed


lemma page_loop_terminates:
  "i < length script \<Longrightarrow> script ! i = Page recs now fault \<Longrightarrow> length recs < 250 \<Longrightarrow>
     \<exists>e. page_loop E api t lu script st = Some e \<and>
         length (rs_requests (end_state e)) \<le> length (rs_requests st) + Suc i"
proof (induction script arbitrary: i st)
  case Nil
  then show ?case by simp
next
  case (Cons ev evs)
  show ?case
  proof (cases i)
    case 0
    with Cons.prems show ?thesis
      by (auto simp: Let_def split: sum.splits)
  next
    case (Suc j)
    with Cons.prems have j: "j < length evs" "evs ! j = Page recs now fault" by auto
    show ?thesis
    proof (cases ev)
      case (FetchThrows e)
      then show ?thesis by (simp add: Let_def)
    next
      case (Page rs n f)
      show ?thesis
      proof (cases "rs = [] \<or> length rs < 250")
        case True
        with Page show ?thesis by (auto simp: Let_def split: sum.splits)
      next
        case False
        show ?thesis
        proof (cases "transaction f (write_page (writeRecord E) n t rs) (rs_db st)")
          case (Inl e)
          with Page False show ?thesis by (simp add: Let_def)
        next
          case (Inr d')
          let ?st2 = "st\<lparr> rs_requests := rs_requests st @ [fetchPage E api 250 (rs_sinceId st) lu],
                       rs_db := d',
                       rs_totalProcessed := rs_totalProcessed st + length rs,
                       rs_sinceId := idOf E (last rs),
                       rs_maxUpdatedInRun := track_max (updatedAtOf E) (rs_maxUpdatedInRun st) rs \<rparr>"
          from Cons.IH[OF j Cons.prems(3), of ?st2]
          obtain e where "page_loop E api t lu evs ?st2 = Some e"
            "length (rs_requests (end_state e)) \<le> length (rs_requests ?st2) + Suc j" by blast
          with Page False Inr Suc show ?thesis by (simp add: Let_def)
        qed
      qed
    qed
  qed
qed

lemma page_loop_inv:
  assumes w: "\<And>now t r d d'. writeRecord E now t r d = Inr d' \<Longrightarrow>
     sync_checkpoints d' = sync_checkpoints d \<and> sync_logs d' = sync_logs d"
  shows "page_loop E api t lu script st = Some e \<Longrightarrow>
     sync_checkpoints (rs_db (end_state e)) = sync_checkpoints (rs_db st) \<and>
     sync_logs (rs_db (end_state e)) = sync_logs (rs_db st)"
proof (induction script arbitrary: st)
  case Nil
  then show ?case by simp
next
  case (Cons ev evs)
  show ?case
  proof (cases ev)
    case (FetchThrows x)
    with Cons.prems show ?thesis by (auto simp: Let_def)
  next
    case (Page rs n f)
    show ?thesis
    proof (cases "transaction f (write_page (writeRecord E) n t rs) (rs_db st)")
      case (Inl x)
      with Page Cons.prems show ?thesis by (auto simp: Let_def split: if_splits)
    next
      case (Inr d')
      then have fr: "sync_checkpoints d' = sync_checkpoints (rs_db st) \<and> sync_logs d' = sync_logs (rs_db st)"
        using write_page_frame[of "writeRecord E" n t rs "rs_db st" d'] w
        by (auto simp: transaction_def split: option.splits)
      show ?thesis
      proof (cases "rs = [] \<or> length rs < 250")
        case True
        with Page Inr fr Cons.prems show ?thesis by (auto simp: Let_def split: if_splits)
      next
        case False
        with Page Inr Cons.prems have
          "page_loop E api t lu evs (st\<lparr> rs_requests := rs_requests st @ [fetchPage E api 250 (rs_sinceId st) lu],
                       rs_db := d',
                       rs_totalProcessed := rs_totalProcessed st + length rs,
                       rs_sinceId := idOf E (last rs),
                       rs_maxUpdatedInRun := track_max (updatedAtOf E) (rs_maxUpdatedInRun st) rs \<rparr>) = Some e"
          by (simp add: Let_def)
        from Cons.IH[OF this] fr show ?thesis by simp
      qed
    qed
  qed
qed


lemma track_max_append:
  "track_max f m (a @ b) = track_max f (track_max f m a) b"
  by (simp add: track_max_def)

lemma page_loop_counts:
  "page_loop E api t lu script st = Some e \<Longrightarrow>
    \<exists>k. length (rs_requests (end_state e)) = length (rs_requests st) + k \<and> 0 < k \<and> k \<le> length script \<and>
      (case e of
         Threw err st' \<Rightarrow>
           rs_totalProcessed st' = rs_totalProcessed st + sum_list (map page_size (take (k - 1) script))
       | Completed st' \<Rightarrow>
           rs_totalProcessed st' = rs_totalProcessed st + sum_list (map page_size (take k script)) \<and>
           rs_maxUpdatedInRun st' =
             track_max (updatedAtOf E) (rs_maxUpdatedInRun st) (concat (map page_records (take k script))))"
proof (induction script arbitrary: st)
  case Nil
  then show ?case by simp
next
  case (Cons ev evs)
  show ?case
  proof (cases ev)
    case (FetchThrows x)
    with Cons.prems show ?thesis by (intro exI[of _ 1]) (auto simp: Let_def)
  next
    case (Page rs n f)
    show ?thesis
    proof (cases "rs = []")
      case True
      with Page Cons.prems show ?thesis
        by (intro exI[of _ 1]) (auto simp: Let_def track_max_def)
    next
      case ne: False
      show ?thesis
      proof (cases "transaction f (write_page (writeRecord E) n t rs) (rs_db st)")
        case (Inl x)
        with Page ne Cons.prems show ?thesis by (intro exI[of _ 1]) (auto simp: Let_def)
      next
        case (Inr d')
        show ?thesis
        proof (cases "length rs < 250")
          case True
          with Page Inr ne Cons.prems show ?thesis
            by (intro exI[of _ 1]) (auto simp: Let_def)
        next
          case False
          let ?st2 = "st\<lparr> rs_requests := rs_requests st @ [fetchPage E api 250 (rs_sinceId st) lu],
                       rs_db := d',
                       rs_totalProcessed := rs_totalProcessed st + length rs,
                       rs_sinceId := idOf E (last rs),
                       rs_maxUpdatedInRun := track_max (updatedAtOf E) (rs_maxUpdatedInRun st) rs \<rparr>"
          from Page Inr ne False Cons.prems have "page_loop E api t lu evs ?st2 = Some e"
            by (simp add: Let_def)
          from Cons.IH[OF this] obtain k where k:
            "length (rs_requests (end_state e)) = length (rs_requests ?st2) + k" "0 < k" "k \<le> length evs"
            "(case e of
         Threw err st' \<Rightarrow>
           rs_totalProcessed st' = rs_totalProcessed ?st2 + sum_list (map page_size (take (k - 1) evs))
       | Completed st' \<Rightarrow>
           rs_totalProcessed st' = rs_totalProcessed ?st2 + sum_list (map page_size (take k evs)) \<and>
           rs_maxUpdatedInRun st' =
             track_max (updatedAtOf E) (rs_maxUpdatedInRun ?st2) (concat (map page_records (take k evs))))"
            by blast
          from k(2) obtain k' where k': "k = Suc k'" by (cases k) auto
          show ?thesis
            using k Page k'
            by (intro exI[of _ "Suc k"]) (auto simp: track_max_append split: run_end.splits)
        qed
      qed
    qed
  qed
qed

lemma track_max_Some:
  "track_max f (Some x) rs = Some (Max (insert x (f ` set rs)))"
proof (induction rs arbitrary: x)
  case Nil
  then show ?case by (simp add: track_max_def)
next
  case (Cons r rs)
  have "track_max f (Some x) (r # rs) = track_max f (Some (if f r > x then f r else x)) rs"
    by (simp add: track_max_def)
  also have "\<dots> = Some (Max (insert (if f r > x then f r else x) (f ` set rs)))"
    by (rule Cons.IH)
  also have "Max (insert (if f r > x then f r else x) (f ` set rs)) = Max (insert x (f ` set (r # rs)))"
  proof (cases "set rs = {}")
    case True
    then show ?thesis by (auto simp: max_def)
  next
    case False
    then have "Max (insert a (f ` set rs)) = max a (Max (f ` set rs))" for a
      by (simp add: Max_insert)
    moreover have "Max (insert x (insert (f r) (f ` set rs))) = max x (max (f r) (Max (f ` set rs)))"
      using False by (simp add: Max_insert)
    ultimately show ?thesis by (auto simp: max_def)
  qed
  finally show ?case .
qed

lemma track_max_None:
  assumes "rs \<noteq> []"
  shows "track_max f None rs = Some (Max (f ` set rs))"
proof -
  from assms obtain r rs' where rs: "rs = r # rs'" by (cases rs) auto
  have "track_max f None (r # rs') = track_max f (Some (f r)) rs'"
    by (simp add: track_max_def)
  then show ?thesis using rs by (simp add: track_max_Some)
qed

lemma ingestCustomers_run_of:
  "ingestCustomers t sd tok script d = run_of customersEntity (newShopifyAPIService sd tok) t script d"
  by (simp add: ingestCustomers_def run_of_def customersEntity_def createSyncLog_def Let_def)

lemma ingestProducts_run_of:
  "ingestProducts t sd tok script d = run_of productsEntity (newShopifyAPIService sd tok) t script d"
  by (simp add: ingestProducts_def run_of_def productsEntity_def createSyncLog_def Let_def)

lemma ingestOrders_run_of:
  "ingestOrders t sd tok script d = run_of ordersEntity (newShopifyAPIService sd tok) t script d"
  by (simp add: ingestOrders_def run_of_def ordersEntity_def createSyncLog_def Let_def)

lemma run_of_terminates:
  assumes "i < length script" "script ! i = Page recs now fault" "length recs < 250"
  shows "\<exists>res d' reqs. run_of E api t script d = Some (res, d', reqs) \<and> length reqs \<le> Suc i"
proof -
  from page_loop_terminates[OF assms, of E api t "sync_checkpoints d (t, entityName E)"
      "initial_state (snd (createSyncLog t (entityName E) d))"]
  obtain e where e: "page_loop E api t (sync_checkpoints d (t, entityName E)) script
          (initial_state (snd (createSyncLog t (entityName E) d))) = Some e"
    "length (rs_requests (end_state e)) \<le> Suc i"
    by (auto simp: initial_state_def)
  show ?thesis
    using e by (cases e) (auto simp: run_of_def finish_run_def Let_def split: option.splits)
qed

lemma run_of_failed:
  assumes w: "\<And>now t r d d'. writeRecord E now t r d = Inr d' \<Longrightarrow>
     sync_checkpoints d' = sync_checkpoints d \<and> sync_logs d' = sync_logs d"
  assumes r: "run_of E api t script d = Some (Inl err, d', reqs)"
  shows "sync_checkpoints d' = sync_checkpoints d \<and>
         sync_logs d' \<noteq> [] \<and>
         last (sync_logs d') =
           \<lparr> sl_id = next_id d, sl_tenant_id = t, sl_sync_type = entityName E,
             sl_status = ''failed'',
             sl_records_processed = sum_list (take (length reqs - 1) (map page_size script)),
             sl_error_message = Some (message err) \<rparr>"
proof -
  let ?d1 = "snd (createSyncLog t (entityName E) d)"
  from r obtain e where e: "page_loop E api t (sync_checkpoints d (t, entityName E)) script
          (initial_state ?d1) = Some e"
    and f: "finish_run t (entityName E) (next_id d) e = (Inl err, d', reqs)"
    by (auto simp: run_of_def)
  from f obtain st where st: "e = Threw err st"
    "d' = completeSyncLog (next_id d) ''failed'' (rs_totalProcessed st) (Some (message err)) (rs_db st)"
    "reqs = rs_requests st"
    by (cases e) (auto simp: finish_run_def Let_def split: option.splits)
  from page_loop_inv[OF w e] st have fr:
    "sync_checkpoints (rs_db st) = sync_checkpoints d"
    "sync_logs (rs_db st) = sync_logs d @ [\<lparr> sl_id = next_id d, sl_tenant_id = t, sl_sync_type = entityName E,
                sl_status = ''running'', sl_records_processed = 0, sl_error_message = None \<rparr>]"
    by (auto simp: initial_state_def createSyncLog_def)
  from page_loop_counts[OF e] st have cnt:
    "rs_totalProcessed st = sum_list (take (length reqs - 1) (map page_size script))"
    by (auto simp: initial_state_def take_map)
  show ?thesis
    using st(2) fr cnt by (simp add: completeSyncLog_def)
qed

lemma run_of_completed:
  assumes w: "\<And>now t r d d'. writeRecord E now t r d = Inr d' \<Longrightarrow>
     sync_checkpoints d' = sync_checkpoints d \<and> sync_logs d' = sync_logs d"
  assumes r: "run_of E api t script d = Some (Inr n, d', reqs)"
  shows "n = sum_list (take (length reqs) (map page_size script)) \<and>
         sync_checkpoints d' =
           (if 0 < n
            then (sync_checkpoints d)((t, entityName E) \<mapsto>
                   raised (sync_checkpoints d (t, entityName E))
                     (Max (set (concat (take (length reqs)
                        (map (\<lambda>ev. map (updatedAtOf E) (page_records ev)) script))))))
            else sync_checkpoints d) \<and>
         sync_logs d' \<noteq> [] \<and>
         last (sync_logs d') =
           \<lparr> sl_id = next_id d, sl_tenant_id = t, sl_sync_type = entityName E,
             sl_status = ''completed'', sl_records_processed = n, sl_error_message = None \<rparr>"
proof -
  let ?d1 = "snd (createSyncLog t (entityName E) d)"
  let ?recs = "concat (map page_records (take (length reqs) script))"
  from r obtain e where e: "page_loop E api t (sync_checkpoints d (t, entityName E)) script
          (initial_state ?d1) = Some e"
    and f: "finish_run t (entityName E) (next_id d) e = (Inr n, d', reqs)"
    by (auto simp: run_of_def)
  from f obtain st where st: "e = Completed st" "n = rs_totalProcessed st" "reqs = rs_requests st"
    and d': "d' = (let d1 = completeSyncLog (next_id d) ''completed'' n None (rs_db st)
              in case rs_maxUpdatedInRun st of None \<Rightarrow> d1
                 | Some latestUpdated \<Rightarrow>
                     if n > 0 then upsert_checkpoint t (entityName E) latestUpdated d1 else d1)"
    by (cases e) (auto simp: finish_run_def Let_def split: option.splits)
  from page_loop_inv[OF w e] st have fr:
    "sync_checkpoints (rs_db st) = sync_checkpoints d"
    "sync_logs (rs_db st) = sync_logs d @ [\<lparr> sl_id = next_id d, sl_tenant_id = t, sl_sync_type = entityName E,
                sl_status = ''running'', sl_records_processed = 0, sl_error_message = None \<rparr>]"
    by (auto simp: initial_state_def createSyncLog_def)
  from page_loop_counts[OF e] st have cnt:
    "n = sum_list (take (length reqs) (map page_size script))"
    "rs_maxUpdatedInRun st = track_max (updatedAtOf E) None ?recs"
    by (auto simp: initial_state_def take_map)
  have len: "sum_list (map page_size evs) = length (concat (map page_records evs))" for evs :: "'a page_event list"
  proof (induction evs)
    case Nil
    then show ?case by simp
  next
    case (Cons ev evs)
    then show ?case by (cases ev) auto
  qed
  have n_len: "n = length ?recs"
    using cnt(1) len[of "take (length reqs) script"] by (simp add: take_map)
  have stamps: "set (concat (take (length reqs) (map (\<lambda>ev. map (updatedAtOf E) (page_records ev)) script)))
      = updatedAtOf E ` set ?recs"
    by (auto simp: take_map)
  have logs: "sync_logs d' \<noteq> [] \<and> last (sync_logs d') =
           \<lparr> sl_id = next_id d, sl_tenant_id = t, sl_sync_type = entityName E,
             sl_status = ''completed'', sl_records_processed = n, sl_error_message = None \<rparr>"
    using d' fr by (auto simp: completeSyncLog_def upsert_checkpoint_def Let_def split: option.splits)
  have cp: "sync_checkpoints d' =
           (if 0 < n
            then (sync_checkpoints d)((t, entityName E) \<mapsto>
                   raised (sync_checkpoints d (t, entityName E))
                     (Max (set (concat (take (length reqs)
                        (map (\<lambda>ev. map (updatedAtOf E) (page_records ev)) script))))))
            else sync_checkpoints d)"
  proof (cases "0 < n")
    case True
    with n_len have ne: "?recs \<noteq> []" by auto
    then have "rs_maxUpdatedInRun st = Some (Max (updatedAtOf E ` set ?recs))"
      using cnt(2) by (simp add: track_max_None)
    with True d' fr stamps show ?thesis
      by (simp add: completeSyncLog_def upsert_checkpoint_def Let_def raised_def)
  next
    case False
    with d' fr show ?thesis
      by (auto simp: completeSyncLog_def upsert_checkpoint_def Let_def split: option.splits)
  qed
  from cnt(1) cp logs show ?thesis by blast
qed

lemma entity_frames:
  "writeRecord customersEntity now t c d = Inr d' \<Longrightarrow>
     sync_checkpoints d' = sync_checkpoints d \<and> sync_logs d' = sync_logs d"
  "writeRecord productsEntity now t p d = Inr d' \<Longrightarrow>
     sync_checkpoints d' = sync_checkpoints d \<and> sync_logs d' = sync_logs d"
  "writeRecord ordersEntity now t ord d = Inr d' \<Longrightarrow>
     sync_checkpoints d' = sync_checkpoints d \<and> sync_logs d' = sync_logs d"
  by (simp_all add: customersEntity_def productsEntity_def ordersEntity_def
      write_customer_frame write_product_frame write_order_frame)

lemma ingestEntity_failed:
  "ingestEntity t sd tok run d = Some (Inl err, d', reqs) \<Longrightarrow>
     sync_checkpoints d' = sync_checkpoints d \<and>
     sync_logs d' \<noteq> [] \<and>
     last (sync_logs d') =
       \<lparr> sl_id = next_id d, sl_tenant_id = t, sl_sync_type = entity_of run,
         sl_status = ''failed'',
         sl_records_processed = sum_list (take (length reqs - 1) (page_sizes run)),
         sl_error_message = Some (message err) \<rparr>"
proof (cases run)
  case (Customers script)
  assume "ingestEntity t sd tok run d = Some (Inl err, d', reqs)"
  with Customers have "run_of customersEntity (newShopifyAPIService sd tok) t script d = Some (Inl err, d', reqs)"
    by (simp add: ingestCustomers_run_of)
  from run_of_failed[OF entity_frames(1) this] Customers show ?thesis
    by (simp add: customersEntity_def)
next
  case (Products script)
  assume "ingestEntity t sd tok run d = Some (Inl err, d', reqs)"
  with Products have "run_of productsEntity (newShopifyAPIService sd tok) t script d = Some (Inl err, d', reqs)"
    by (simp add: ingestProducts_run_of)
  from run_of_failed[OF entity_frames(2) this] Products show ?thesis
    by (simp add: productsEntity_def)
next
  case (Orders script)
  assume "ingestEntity t sd tok run d = Some (Inl err, d', reqs)"
  with Orders have "run_of ordersEntity (newShopifyAPIService sd tok) t script d = Some (Inl err, d', reqs)"
    by (simp add: ingestOrders_run_of)
  from run_of_failed[OF entity_frames(3) this] Orders show ?thesis
    by (simp add: ordersEntity_def)
qed

lemma ingestEntity_completed:
  "ingestEntity t sd tok run d = Some (Inr n, d', reqs) \<Longrightarrow>
     n = sum_list (take (length reqs) (page_sizes run)) \<and>
     sync_checkpoints d' =
       (if 0 < n
        then (sync_checkpoints d)((t, entity_of run) \<mapsto>
               raised (sync_checkpoints d (t, entity_of run)) (run_max run (length reqs)))
        else sync_checkpoints d) \<and>
     sync_logs d' \<noteq> [] \<and>
     last (sync_logs d') =
       \<lparr> sl_id = next_id d, sl_tenant_id = t, sl_sync_type = entity_of run,
         sl_status = ''completed'', sl_records_processed = n, sl_error_message = None \<rparr>"
proof (cases run)
  case (Customers script)
  assume "ingestEntity t sd tok run d = Some (Inr n, d', reqs)"
  with Customers have r: "run_of customersEntity (newShopifyAPIService sd tok) t script d = Some (Inr n, d', reqs)"
    by (simp add: ingestCustomers_run_of)
  have e: "entityName customersEntity = entity_of run" "map page_size script = page_sizes run"
    "\<And>k. Max (set (concat (take k (map (\<lambda>ev. map (updatedAtOf customersEntity) (page_records ev)) script)))) = run_max run k"
    using Customers by (simp_all add: customersEntity_def run_max_def)
  from run_of_completed[OF entity_frames(1) r] show ?thesis
    unfolding e .
next
  case (Products script)
  assume "ingestEntity t sd tok run d = Some (Inr n, d', reqs)"
  with Products have r: "run_of productsEntity (newShopifyAPIService sd tok) t script d = Some (Inr n, d', reqs)"
    by (simp add: ingestProducts_run_of)
  have e: "entityName productsEntity = entity_of run" "map page_size script = page_sizes run"
    "\<And>k. Max (set (concat (take k (map (\<lambda>ev. map (updatedAtOf productsEntity) (page_records ev)) script)))) = run_max run k"
    using Products by (simp_all add: productsEntity_def run_max_def)
  from run_of_completed[OF entity_frames(2) r] show ?thesis
    unfolding e .
next
  case (Orders script)
  assume "ingestEntity t sd tok run d = Some (Inr n, d', reqs)"
  with Orders have r: "run_of ordersEntity (newShopifyAPIService sd tok) t script d = Some (Inr n, d', reqs)"
    by (simp add: ingestOrders_run_of)
  have e: "entityName ordersEntity = entity_of run" "map page_size script = page_sizes run"
    "\<And>k. Max (set (concat (take k (map (\<lambda>ev. map (updatedAtOf ordersEntity) (page_records ev)) script)))) = run_max run k"
    using Orders by (simp_all add: ordersEntity_def run_max_def)
  from run_of_completed[OF entity_frames(3) r] show ?thesis
    unfolding e .
qed

lemma ingestEntity_monotone:
  assumes "ingestEntity t sd tok run d = Some (res, d', reqs)" "sync_checkpoints d key = Some stored"
  shows "\<exists>new. sync_checkpoints d' key = Some new \<and> stored \<le> new"
proof (cases res)
  case (Inl err)
  with assms ingestEntity_failed[of t sd tok run d err d' reqs] show ?thesis by simp
next
  case (Inr n)
  with assms ingestEntity_completed[of t sd tok run d n d' reqs] show ?thesis
    by (auto simp: raised_def)
qed

lemma run_sequence_monotone:
  "run_sequence runs d = Some d' \<Longrightarrow> sync_checkpoints d key = Some stored \<Longrightarrow>
     \<exists>new. sync_checkpoints d' key = Some new \<and> stored \<le> new"
proof (induction runs arbitrary: d stored)
  case Nil
  then show ?case by simp
next
  case (Cons r runs)
  obtain t sd tok run where r: "r = (t, sd, tok, run)" by (cases r) auto
  with Cons.prems obtain res d1 reqs where
    one: "ingestEntity t sd tok run d = Some (res, d1, reqs)" and rest: "run_sequence runs d1 = Some d'"
    by (auto split: option.splits)
  from ingestEntity_monotone[OF one Cons.prems(2)] obtain mid where
    mid: "sync_checkpoints d1 key = Some mid" "stored \<le> mid" by blast
  from Cons.IH[OF rest mid(1)] mid(2) show ?case by force
qed

section \<open>Pagination ends\<close>

text \<open>
  C7. For a run of any of the three entity types: when the event at position \<open>i\<close> of the
  run is a page that is empty or shorter than the 250 records asked for, the run returns,
  and it has sent at most \<open>i + 1\<close> page requests, so none after that page.
\<close>

theorem pagination_terminates:
  "i < length (short_pages run) \<Longrightarrow> short_pages run ! i \<Longrightarrow>
     \<exists>res d' reqs. ingestEntity t sd tok run d = Some (res, d', reqs) \<and> length reqs \<le> Suc i"
proof (cases run)
  case (Customers script)
  assume "i < length (short_pages run)" "short_pages run ! i"
  with Customers have "i < length script" "short_page (script ! i)" by auto
  then obtain recs now fault where "script ! i = Page recs now fault" "length recs < 250"
    by (cases "script ! i") auto
  from run_of_terminates[OF \<open>i < length script\<close> this] Customers show ?thesis
    by (simp add: ingestCustomers_run_of ingestProducts_run_of ingestOrders_run_of)
next
  case (Products script)
  assume "i < length (short_pages run)" "short_pages run ! i"
  with Products have "i < length script" "short_page (script ! i)" by auto
  then obtain recs now fault where "script ! i = Page recs now fault" "length recs < 250"
    by (cases "script ! i") auto
  from run_of_terminates[OF \<open>i < length script\<close> this] Products show ?thesis
    by (simp add: ingestCustomers_run_of ingestProducts_run_of ingestOrders_run_of)
next
  case (Orders script)
  assume "i < length (short_pages run)" "short_pages run ! i"
  with Orders have "i < length script" "short_page (script ! i)" by auto
  then obtain recs now fault where "script ! i = Page recs now fault" "length recs < 250"
    by (cases "script ! i") auto
  from run_of_terminates[OF \<open>i < length script\<close> this] Orders show ?thesis
    by (simp add: ingestCustomers_run_of ingestProducts_run_of ingestOrders_run_of)
qed

theorem pagination_terminates_witness:
  "1 < length (short_pages (Customers [Page (replicate 250 (example_customer 7)) 1 None, Page [] 2 None])) \<and>
   short_pages (Customers [Page (replicate 250 (example_customer 7)) 1 None, Page [] 2 None]) ! 1 \<and>
   (\<exists>res d' reqs.
      ingestEntity ''t1'' ''shop.myshopify.com'' (Some ''tok'')
        (Customers [Page (replicate 250 (example_customer 7)) 1 None, Page [] 2 None]) example_db = Some (res, d', reqs) \<and>
      length reqs \<le> Suc 1)"
  using pagination_terminates [of 1 "Customers [Page (replicate 250 (example_customer 7)) 1 None, Page [] 2 None]"
      "''t1''" "''shop.myshopify.com''" "Some ''tok''" example_db]
  by simp


section \<open>The example records are written\<close>

lemma example_customer_fields:
  "c_id (example_customer n) = Some n" "c_updated_at (example_customer n) = Some 2000"
  "c_created_at (example_customer n) = 10" "c_total_spent (example_customer n) = Some ''12.50''"
  by (simp_all add: example_customer_def)

lemma older_customer_fields:
  "c_id older_customer = Some 8" "c_updated_at older_customer = Some 1500"
  "c_created_at older_customer = 20" "c_total_spent older_customer = Some ''3''"
  by (simp_all add: older_customer_def)

lemma example_customer_excluded:
  "- (2 ^ 63) \<le> n \<Longrightarrow> n < 2 ^ 63 \<Longrightarrow>
   excluded_customer now t i (example_customer n) (Finite False 1250 (- 2)) =
     Inr \<lparr> cr_id = i, cr_tenant_id = t, cr_shopify_customer_id = n, cr_email = ''a@b.c'',
           cr_first_name = ''A'', cr_last_name = ''B'', cr_phone = [],
           cr_total_spent = Numeric 1250, cr_orders_count = 1, cr_created_at = now,
           cr_updated_at = now, cr_shopify_created_at = 10,
           cr_shopify_updated_at = Some 2000 \<rparr>"
  by (simp add: excluded_customer_iff example_customer_def column_defs as_decimal_examples)

lemma older_customer_excluded:
  "excluded_customer now t i older_customer (Finite False 3 0) =
     Inr \<lparr> cr_id = i, cr_tenant_id = t, cr_shopify_customer_id = 8, cr_email = ''x@y.z'',
           cr_first_name = ''X'', cr_last_name = ''Y'', cr_phone = [],
           cr_total_spent = Numeric 300, cr_orders_count = 0, cr_created_at = now,
           cr_updated_at = now, cr_shopify_created_at = 20,
           cr_shopify_updated_at = Some 1500 \<rparr>"
  by (simp add: excluded_customer_iff older_customer_def column_defs as_decimal_examples)

lemma write_customers_succeeds:
  "excluded_customer now t i c (parseFloat_field (c_total_spent c)) = Inr e \<Longrightarrow>
     \<exists>d'. write_page write_customer now t (replicate n c) d = Inr d'"
proof (induction n arbitrary: d)
  case 0
  then show ?case by simp
next
  case (Suc n)
  from excluded_customer_again[OF Suc.prems, of now "next_id d"]
  obtain d1 where "write_customer now t c d = Inr d1"
    by (simp add: write_customer_def upsert_customer_def)
  with Suc.IH[OF Suc.prems, of d1] show ?case by simp
qed

lemma example_page_written:
  "\<exists>d'. write_page write_customer now t (replicate n (example_customer 7)) d = Inr d'"
  by (rule write_customers_succeeds[where i = 0])
     (simp add: example_customer_fields parseFloat_field_def parseFloat_examples
        example_customer_excluded)

lemma full_page_then_throw:
  assumes "write_page (writeRecord E) now t recs (rs_db st) = Inr d'" "length recs = 250"
  shows "page_loop E api t lu [Page recs now None, FetchThrows e] st =
     Some (Threw e (st\<lparr> rs_requests := rs_requests st @
                          [fetchPage E api 250 (rs_sinceId st) lu,
                           fetchPage E api 250 (idOf E (last recs)) lu],
                       rs_db := d',
                       rs_totalProcessed := rs_totalProcessed st + 250,
                       rs_sinceId := idOf E (last recs),
                       rs_maxUpdatedInRun := track_max (updatedAtOf E) (rs_maxUpdatedInRun st) recs \<rparr>))"
  using assms by (auto simp: Let_def transaction_def)

section \<open>A failed run\<close>

text \<open>
  C5. When a run of any entity type throws, the checkpoint table is the one the run
  started from, the log row the run opened is marked failed with the number of records of
  the pages committed before the failing request and with the error's message, and the
  caller gets the error.
\<close>

theorem failed_run_keeps_checkpoint:
  "ingestEntity t sd tok run d = Some (Inl err, d', reqs) \<Longrightarrow>
     sync_checkpoints d' = sync_checkpoints d \<and>
     sync_logs d' \<noteq> [] \<and>
     last (sync_logs d') =
       \<lparr> sl_id = next_id d, sl_tenant_id = t, sl_sync_type = entity_of run,
         sl_status = ''failed'',
         sl_records_processed = sum_list (take (length reqs - 1) (page_sizes run)),
         sl_error_message = Some (message err) \<rparr>"
  by (rule ingestEntity_failed)

theorem failed_run_keeps_checkpoint_witness:
  "\<exists>d' reqs.
     ingestEntity ''t1'' ''shop.myshopify.com'' (Some ''tok'')
       (Customers [Page (replicate 250 (example_customer 7)) 1 None, FetchThrows (Error ''socket hang up'')]) example_db
       = Some (Inl (Error ''socket hang up''), d', reqs) \<and>
     length reqs = 2 \<and>
     sync_checkpoints d' (''t1'', ''customers'') = Some 1000 \<and>
     last (sync_logs d') =
       \<lparr> sl_id = 0, sl_tenant_id = ''t1'', sl_sync_type = ''customers'', sl_status = ''failed'',
         sl_records_processed = 250, sl_error_message = Some ''socket hang up'' \<rparr>"
proof -
  let ?run = "Customers [Page (replicate 250 (example_customer 7)) 1 None, FetchThrows (Error ''socket hang up'')]"
  let ?d1 = "snd (createSyncLog ''t1'' ''customers'' example_db)"
  from example_page_written[of 1 "''t1''" 250 ?d1]
  obtain dw where dw: "write_page write_customer 1 ''t1'' (replicate 250 (example_customer 7)) ?d1 = Inr dw"
    by blast
  have "\<exists>d' reqs. ingestEntity ''t1'' ''shop.myshopify.com'' (Some ''tok'') ?run example_db
          = Some (Inl (Error ''socket hang up''), d', reqs) \<and> length reqs = 2"
    using full_page_then_throw[of customersEntity 1 "''t1''" "replicate 250 (example_customer 7)" "initial_state ?d1" dw]
      dw
    by (simp add: ingestCustomers_def createSyncLog_def initial_state_def customersEntity_def
        finish_run_def Let_def)
  then obtain d' reqs where h:
    "ingestEntity ''t1'' ''shop.myshopify.com'' (Some ''tok'') ?run example_db
       = Some (Inl (Error ''socket hang up''), d', reqs)" "length reqs = 2"
    by blast
  from failed_run_keeps_checkpoint[OF h(1)] h show ?thesis
    by (simp add: example_db_def)
qed

section \<open>Checkpoints only move forward\<close>

text \<open>
  C4. Over any sequence of ingestion runs, of any tenants and entity types, a checkpoint
  that is stored stays stored and its timestamp does not decrease. A run that completes
  with at least one record stores, for its tenant and entity, the greater of the value
  stored before and the greatest source timestamp among the records of the pages it
  fetched.
\<close>

theorem checkpoint_never_decreases:
  "(run_sequence runs d = Some d' \<longrightarrow> sync_checkpoints d key = Some stored \<longrightarrow>
      (\<exists>new. sync_checkpoints d' key = Some new \<and> stored \<le> new)) \<and>
   (ingestEntity t sd tok run d = Some (Inr n, d1, reqs) \<longrightarrow> 0 < n \<longrightarrow>
      sync_checkpoints d1 (t, entity_of run) =
        Some (raised (sync_checkpoints d (t, entity_of run)) (run_max run (length reqs))))"
  using run_sequence_monotone[of runs d d' key stored]
    ingestEntity_completed[of t sd tok run d n d1 reqs]
  by simp


lemmas eval_defs = ingestCustomers_def createSyncLog_def initial_state_def customersEntity_def
     finish_run_def completeSyncLog_def upsert_checkpoint_def getCustomers_call3_def getCustomers_def makeRequest_def
     newShopifyAPIService_def sinceParam_def transaction_def write_customer_def upsert_customer_def track_max_def
     on_conflict_do_update_def parseFloat_field_def stripProtocol_def updatedAt_or_createdAt_def
     customer_conflict_def customer_do_update_def example_customer_fields older_customer_fields
     parseFloat_examples example_customer_excluded older_customer_excluded

theorem checkpoint_never_decreases_witness:
  "\<exists>d' d1 reqs.
     run_sequence
       [(''t1'', ''shop.myshopify.com'', Some ''tok'', Customers [Page [example_customer 7] 1 None]),
        (''t1'', ''shop.myshopify.com'', Some ''tok'', Customers [Page [older_customer] 2 None])]
       example_db = Some d' \<and>
     sync_checkpoints example_db (''t1'', ''customers'') = Some 1000 \<and>
     sync_checkpoints d' (''t1'', ''customers'') = Some 2000 \<and>
     ingestEntity ''t1'' ''shop.myshopify.com'' (Some ''tok'')
       (Customers [Page [example_customer 7] 1 None]) example_db = Some (Inr 1, d1, reqs) \<and>
     (0::nat) < 1 \<and>
     sync_checkpoints d1 (''t1'', ''customers'') =
       Some (raised (Some 1000) (run_max (Customers [Page [example_customer 7] 1 None]) 1)) \<and>
     raised (Some 1000) (run_max (Customers [Page [example_customer 7] 1 None]) 1) = 2000"
proof -
  let ?runs = "[(''t1'', ''shop.myshopify.com'', Some ''tok'', Customers [Page [example_customer 7] 1 None]),
        (''t1'', ''shop.myshopify.com'', Some ''tok'', Customers [Page [older_customer] 2 None])]"
  have "\<exists>d'. run_sequence ?runs example_db = Some d' \<and> sync_checkpoints d' (''t1'', ''customers'') = Some 2000"
    by (simp add: eval_defs example_db_def Let_def)
  then obtain d' where a: "run_sequence ?runs example_db = Some d'"
    "sync_checkpoints d' (''t1'', ''customers'') = Some 2000" by blast
  have "\<exists>d1 reqs. ingestEntity ''t1'' ''shop.myshopify.com'' (Some ''tok'')
       (Customers [Page [example_customer 7] 1 None]) example_db = Some (Inr 1, d1, reqs)"
    by (simp add: eval_defs example_db_def Let_def)
  then obtain d1 reqs where b: "ingestEntity ''t1'' ''shop.myshopify.com'' (Some ''tok'')
       (Customers [Page [example_customer 7] 1 None]) example_db = Some (Inr 1, d1, reqs)" by blast
  have c: "sync_checkpoints example_db (''t1'', ''customers'') = Some 1000"
    by (simp add: example_db_def)
  have len: "length reqs = 1"
    using b by (auto simp: eval_defs example_db_def Let_def)
  have m: "raised (Some 1000) (run_max (Customers [Page [example_customer 7] 1 None]) 1) = 2000"
    by (simp add: raised_def run_max_def customersEntity_def example_customer_def updatedAt_or_createdAt_def)
  from checkpoint_never_decreases[of ?runs example_db d' "(''t1'', ''customers'')" 1000
      "''t1''" "''shop.myshopify.com''" "Some ''tok''" "Customers [Page [example_customer 7] 1 None]" 1 d1 reqs]
    a b c len m
  show ?thesis by auto
qed

section \<open>What a page request carries\<close>

lemma full_page_then_empty:
  assumes "write_page (writeRecord E) now t recs (rs_db st) = Inr d'" "length recs = 250"
  shows "page_loop E api t lu [Page recs now None, Page [] now' fault] st =
     Some (Completed (st\<lparr> rs_requests := rs_requests st @
                          [fetchPage E api 250 (rs_sinceId st) lu,
                           fetchPage E api 250 (idOf E (last recs)) lu],
                       rs_db := d',
                       rs_totalProcessed := rs_totalProcessed st + 250,
                       rs_sinceId := idOf E (last recs),
                       rs_maxUpdatedInRun := track_max (updatedAtOf E) (rs_maxUpdatedInRun st) recs \<rparr>))"
  using assms by (auto simp: Let_def transaction_def)

text \<open>
  C1. The claim does not hold of the code. \<open>ingestCustomers\<close> reads the checkpoint and
  hands it to \<open>getCustomers\<close> as a third argument, but the method has no parameter for
  it: the request is the same whatever the checkpoint is. In the run below a checkpoint of
  1000 is stored; the first request carries only the limit, the second the limit and the
  cursor, and neither carries a timestamp.
\<close>

theorem checkpoint_not_sent:
  "getCustomers_call3 api limit sinceId lastUpdatedAt = getCustomers_call3 api limit sinceId None \<and>
   getProducts_call3 api limit sinceId lastUpdatedAt = getProducts_call3 api limit sinceId None \<and>
   getOrders_call3 api limit sinceId lastUpdatedAt = getOrders_call3 api limit sinceId None \<and>
   sync_checkpoints example_db (''t1'', ''customers'') = Some 1000 \<and>
   map_option (\<lambda>(res, d', reqs). map req_params reqs)
     (ingestCustomers ''t1'' ''shop.myshopify.com'' (Some ''tok'')
        [Page (replicate 250 (example_customer 7)) 1 None, Page [] 2 None] example_db)
   = Some [[(''limit'', PNum 250)], [(''limit'', PNum 250), (''since_id'', PNum 7)]]"
proof -
  let ?d1 = "snd (createSyncLog ''t1'' ''customers'' example_db)"
  from example_page_written[of 1 "''t1''" 250 ?d1]
  obtain dw where dw: "write_page write_customer 1 ''t1'' (replicate 250 (example_customer 7)) ?d1 = Inr dw"
    by blast
  have "map_option (\<lambda>(res, d', reqs). map req_params reqs)
     (ingestCustomers ''t1'' ''shop.myshopify.com'' (Some ''tok'')
        [Page (replicate 250 (example_customer 7)) 1 None, Page [] 2 None] example_db)
   = Some [[(''limit'', PNum 250)], [(''limit'', PNum 250), (''since_id'', PNum 7)]]"
    using full_page_then_empty[of customersEntity 1 "''t1''" "replicate 250 (example_customer 7)"
        "initial_state ?d1" dw] dw
    by (simp add: ingestCustomers_def createSyncLog_def initial_state_def customersEntity_def
        finish_run_def Let_def getCustomers_call3_def getCustomers_def makeRequest_def sinceParam_def
        example_customer_fields)
  then show ?thesis
    by (simp add: getCustomers_call3_def getProducts_call3_def getOrders_call3_def example_db_def)
qed

section \<open>The manual trigger and a tenant without a credential\<close>

text \<open>
  C2. The claim does not hold of the handler in routes/api.ts, which never looks at the
  credential: for a tenant whose access token is absent it starts the customers run, which
  opens a log row before the first fetch; the source refuses the request, the row is marked
  failed and the response is 500. The handler of the second listing has the guard
  \<open>if (!tenantData.access_token)\<close> and answers 400 without touching the store.
\<close>

theorem ingest_route_opens_log_without_credential:
  "find (\<lambda>t. t_id t = ''t1'') (tenants tokenless_db) =
     Some \<lparr> t_id = ''t1'', t_shop_domain = ''shop.myshopify.com'',
            t_access_token = None, t_status = ''active'' \<rparr> \<and>
   map_option (\<lambda>(resp, d'). (resp, sync_logs d'))
     (post_tenants_ingest ''t1'' None unauthorized_scripts tokenless_db)
   = Some (Failed500 ''Request failed with status code 401'',
           [\<lparr> sl_id = 0, sl_tenant_id = ''t1'', sl_sync_type = ''customers'',
              sl_status = ''failed'', sl_records_processed = 0,
              sl_error_message = Some ''Request failed with status code 401'' \<rparr>]) \<and>
   post_tenants_ingest_guarded None None ''t1'' None unauthorized_scripts tokenless_db
   = Some (BadRequest400 ''Tenant not connected to Shopify yet (missing access token)'', tokenless_db)"
  by (simp add: post_tenants_ingest_def post_tenants_ingest_guarded_def ingest_selected_def
      ingest_step_def wanted_def tokenless_db_def unauthorized_scripts_def
      ingestCustomers_def createSyncLog_def initial_state_def finish_run_def completeSyncLog_def
      Let_def)














section \<open>Webhooks: signature and receipts\<close>













lemma upsert_customer_Inr:
  "(upsert_customer now t c s d = Inr d') =
     (\<exists>e. excluded_customer now t (next_id d) c s = Inr e \<and>
          d' = d\<lparr> customers := on_conflict_do_update (customer_conflict e)
                                (customer_do_update now e) e (customers d),
                  next_id := Suc (next_id d) \<rparr>)"
  by (auto simp: upsert_customer_def check_eq_Inr)








































text \<open>
  C9. The signature check compares the header with the keyed hash of the raw body, and
  nothing else of the request. When it fails each of the three handlers answers 401 and
  returns the store it was given: no receipt, no entity row, no custom event.
\<close>

theorem bad_signature_rejected:
  "(verifyWebhook H secret raw sig \<longleftrightarrow> sig = Some (H secret raw)) \<and>
   (\<not> verifyWebhook H secret (wh_rawBody rc) (wh_signature rc) \<longrightarrow>
      handleCustomerUpdate H secret now rc d = (Unauthorized401, d)) \<and>
   (\<not> verifyWebhook H secret (wh_rawBody ra) (wh_signature ra) \<longrightarrow>
      handleCartAbandoned H secret now ra d = (Unauthorized401, d)) \<and>
   (\<not> verifyWebhook H secret (wh_rawBody rk) (wh_signature rk) \<longrightarrow>
      handleCheckoutStarted H secret now rk d = (Unauthorized401, d))"
  by (auto simp: verifyWebhook_def handleCustomerUpdate_def handleCartAbandoned_def
      handleCheckoutStarted_def)


theorem bad_signature_rejected_witness:
  "\<not> verifyWebhook example_hmac ''secret'' (wh_rawBody (customer_delivery\<lparr>wh_signature := Some ''forged''\<rparr>))
        (wh_signature (customer_delivery\<lparr>wh_signature := Some ''forged''\<rparr>)) \<and>
   handleCustomerUpdate example_hmac ''secret'' 1 (customer_delivery\<lparr>wh_signature := Some ''forged''\<rparr>)
     example_db = (Unauthorized401, example_db) \<and>
   \<not> verifyWebhook example_hmac ''secret'' (wh_rawBody ((cart_delivery None)\<lparr>wh_signature := None\<rparr>))
        (wh_signature ((cart_delivery None)\<lparr>wh_signature := None\<rparr>)) \<and>
   handleCartAbandoned example_hmac ''secret'' 1 ((cart_delivery None)\<lparr>wh_signature := None\<rparr>)
     example_db = (Unauthorized401, example_db) \<and>
   \<not> verifyWebhook example_hmac ''secret'' (wh_rawBody (checkout_delivery\<lparr>wh_rawBody := ''{checkout 56}''\<rparr>))
        (wh_signature (checkout_delivery\<lparr>wh_rawBody := ''{checkout 56}''\<rparr>)) \<and>
   handleCheckoutStarted example_hmac ''secret'' 1 (checkout_delivery\<lparr>wh_rawBody := ''{checkout 56}''\<rparr>)
     example_db = (Unauthorized401, example_db)"
  using bad_signature_rejected [of example_hmac "''secret''" "[]" None
      "customer_delivery\<lparr>wh_signature := Some ''forged''\<rparr>" 1 example_db
      "(cart_delivery None)\<lparr>wh_signature := None\<rparr>"
      "checkout_delivery\<lparr>wh_rawBody := ''{checkout 56}''\<rparr>"]
  by (simp add: verifyWebhook_def example_hmac_def customer_delivery_def cart_delivery_def
      checkout_delivery_def)








section \<open>The receipt key of an abandoned cart\<close>















end
